theory Spec2Isabelle
  imports Main
begin

section \<open>Basic types\<close>

text \<open>
  Go strings and byte slices are both sequences of 8-bit values; the conversions
  \<^verbatim>\<open>[]byte(s)\<close> and \<^verbatim>\<open>string(b)\<close> keep the bytes, so both are modelled as
  \<^typ>\<open>string\<close>. A \<^verbatim>\<open>time.Time\<close> is the number of nanoseconds since the Unix epoch;
  a \<^verbatim>\<open>time.Duration\<close> is a number of nanoseconds.
\<close>

type_synonym bytes = string
type_synonym timestamp = int

definition Second :: int where
  "Second = 1000000000"

definition Hour :: int where
  "Hour = 3600 * Second"

text \<open>The zero \<^verbatim>\<open>time.Time\<close> (1 January of year 1, UTC) and \<^verbatim>\<open>IsZero\<close>.\<close>

definition zeroTime :: timestamp where
  "zeroTime = - 62135596800 * Second"

definition IsZero :: "timestamp \<Rightarrow> bool" where
  "IsZero t = (t = zeroTime)"

text \<open>\<^verbatim>\<open>t.Unix()\<close> (whole seconds, rounded down) and \<^verbatim>\<open>time.Unix(sec, 0)\<close>.\<close>

definition Unix :: "timestamp \<Rightarrow> int" where
  "Unix t = t div Second"

definition time_Unix :: "int \<Rightarrow> timestamp" where
  "time_Unix sec = sec * Second"

text \<open>
  A JSON number decoded into an \<^verbatim>\<open>interface{}\<close> is a \<^verbatim>\<open>float64\<close>: the nearest value with
  53 significant bits, ties to the even one. \<open>json_float64 n\<close> is that value for the
  integer \<open>n\<close>; it is an integer again, and \<^verbatim>\<open>int64(f)\<close> returns it. Integers below
  \<open>2 ^ 53\<close> in magnitude are read back exactly.
\<close>

function bit_length :: "int \<Rightarrow> nat" where
  "bit_length n = (if n \<le> 0 then 0 else Suc (bit_length (n div 2)))"
  by pat_completeness auto
termination
  by (relation "measure nat") auto

declare bit_length.simps [simp del]

definition json_float64 :: "int \<Rightarrow> int" where
  "json_float64 n =
     (let k = bit_length \<bar>n\<bar> - 53;
          q = \<bar>n\<bar> div 2 ^ k;
          r = \<bar>n\<bar> mod 2 ^ k;
          q' = (if 2 ^ k < 2 * r \<or> (2 ^ k = 2 * r \<and> odd q) then q + 1 else q)
      in sgn n * (q' * 2 ^ k))"

text \<open>\<^verbatim>\<open>hex.EncodeToString\<close>: two lowercase hexadecimal digits per byte.\<close>

definition hextable :: string where
  "hextable = ''0123456789abcdef''"

fun EncodeToString :: "bytes \<Rightarrow> string" where
  "EncodeToString [] = []"
| "EncodeToString (b # bs) =
     hextable ! (of_char b div 16) # hextable ! (of_char b mod 16) # EncodeToString bs"

section \<open>Library primitives taken as parameters\<close>

text \<open>
  The cryptographic primitives come from the Go standard library and
  \<^verbatim>\<open>golang.org/x/crypto\<close>; they are parameters of the model.
  \<^item> \<open>sha256_Sum256 x\<close> is \<^verbatim>\<open>sha256.Sum256(x)\<close>;
  \<^item> \<open>hkdf_sha256 ikm salt info n\<close> is the first \<open>n\<close> bytes read from
    \<^verbatim>\<open>hkdf.New(sha256.New, ikm, salt, info)\<close>;
  \<^item> \<open>gcm_Seal key nonce plaintext aad\<close> is \<^verbatim>\<open>gcm.Seal(nil, nonce, plaintext, aad)\<close> for
    the AES-GCM instance built from \<open>key\<close>;
  \<^item> \<open>gcm_Open key nonce ciphertext aad\<close> is \<^verbatim>\<open>gcm.Open(nil, nonce, ciphertext, aad)\<close>,
    \<open>None\<close> when authentication fails.
\<close>

record crypto =
  sha256_Sum256 :: "bytes \<Rightarrow> bytes"
  hkdf_sha256 :: "bytes \<Rightarrow> bytes \<Rightarrow> bytes \<Rightarrow> nat \<Rightarrow> bytes"
  gcm_Seal :: "bytes \<Rightarrow> bytes \<Rightarrow> bytes \<Rightarrow> bytes \<Rightarrow> bytes"
  gcm_Open :: "bytes \<Rightarrow> bytes \<Rightarrow> bytes \<Rightarrow> bytes \<Rightarrow> bytes option"

text \<open>\<^verbatim>\<open>aes.NewCipher\<close> accepts keys of 16, 24 or 32 bytes only.\<close>

definition aes_NewCipher :: "bytes \<Rightarrow> bool" where
  "aes_NewCipher key = (length key = 16 \<or> length key = 24 \<or> length key = 32)"

text \<open>
  The law of an authenticated cipher that the round-trip results assume: opening what
  was sealed, with the same key, nonce and associated data, returns the plaintext.
\<close>

definition aead_correct :: "crypto \<Rightarrow> bool" where
  "aead_correct c =
     (\<forall>key nonce plaintext aad.
        aes_NewCipher key \<and> length nonce = 12 \<longrightarrow>
        gcm_Open c key nonce (gcm_Seal c key nonce plaintext aad) aad = Some plaintext)"

section \<open>The environment of one operation\<close>

text \<open>
  Everything an operation reads from outside the two services: clock readings, the
  bytes delivered by \<^verbatim>\<open>crypto/rand\<close>, and whether each remote call fails. A random
  source of \<open>None\<close>, or one that does not deliver the requested number of bytes,
  is a failed \<^verbatim>\<open>rand.Read\<close>.
\<close>

record env =
  now_expiry :: timestamp
  now_created :: timestamp
  now_tek :: timestamp
  now_check :: timestamp
  now_cache :: timestamp
  now_redis :: timestamp
  now_db :: timestamp
  now_pgmq :: timestamp
  rand_ref :: "bytes option"
  rand_tek :: "bytes option"
  rand_tek_iv :: "bytes option"
  rand_iv :: "bytes option"
  rpc_retrieveTEK_fails :: bool
  rpc_storeTEK_fails :: bool
  rpc_retrievePII_fails :: bool
  db_loadTEK_fails :: bool
  db_saveTEK_fails :: bool
  db_upsert_fails :: bool
  db_select_fails :: bool
  redis_get_fails :: bool
  redis_set_fails :: bool
  redis_del_fails :: bool
  pgmq_send_fails :: bool
  pgmq_delete_fails :: bool
  scan_fails :: bool

definition rand_Read :: "nat \<Rightarrow> bytes option \<Rightarrow> bytes option" where
  "rand_Read n src =
     (case src of
        None \<Rightarrow> None
      | Some bs \<Rightarrow> if length bs = n then Some bs else None)"

section \<open>Errors\<close>

datatype error =
    ErrNoRows
  | ErrDatabase
  | ErrKeyVerification
  | ErrClientUnavailable
  | ErrRpc
  | ErrStoreTEK
  | ErrRandom
  | ErrCipher
  | ErrTEKTooShort
  | ErrDecryptTEK
  | ErrDecryptData
  | ErrIVLength
  | ErrTokenNotFound
  | ErrTokenExpired
  | ErrCacheMiss
  | ErrRedis
  | ErrOrgMismatch
  | ErrCorruptedCache
  | ErrAlreadyExpired
  | ErrInsertToken
  | ErrPublish

section \<open>Records of the two services\<close>

text \<open>\<^verbatim>\<open>types.OrganizationTEK\<close>.\<close>

record OrganizationTEK =
  tek_OrganizationID :: string
  tek_EncryptedTEK :: bytes
  tek_OrgKeyHash :: string
  tek_CreatedAt :: timestamp
  tek_RotatedAt :: "timestamp option"
  tek_Version :: int

text \<open>A row of \<^verbatim>\<open>organization_teks\<close>.\<close>

record tek_row =
  t_organization_id :: string
  t_encrypted_tek :: bytes
  t_org_key_hash :: string
  t_created_at :: timestamp
  t_rotated_at :: "timestamp option"
  t_version :: int
  t_is_active :: bool

text \<open>A row of \<^verbatim>\<open>pii_tokens\<close>. The metadata column holds the JSON object as its pairs.\<close>

record pii_row =
  p_reference_hash :: string
  p_encrypted_data :: bytes
  p_iv :: bytes
  p_data_type :: string
  p_client_id :: string
  p_organization_id :: string
  p_created_at :: timestamp
  p_expires_at :: timestamp
  p_metadata :: "(string \<times> string) list"
  p_updated_at :: timestamp

text \<open>
  \<^verbatim>\<open>pb.StorePIITokenRequest\<close>; a nil timestamp pointer is \<open>None\<close>. The protobuf
  message types are generated code outside the sources; the records below have the
  fields that the two services read and write.
\<close>

record StorePIITokenRequest =
  sp_ReferenceHash :: string
  sp_EncryptedData :: bytes
  sp_Iv :: bytes
  sp_DataType :: string
  sp_ClientId :: string
  sp_OrganizationId :: string
  sp_Metadata :: "(string \<times> string) list"
  sp_CreatedAt :: "timestamp option"
  sp_ExpiresAt :: "timestamp option"

text \<open>The payload of a successful \<^verbatim>\<open>pb.RetrievePIITokenResponse\<close>.\<close>

record RetrievePIITokenResponse =
  rp_ReferenceHash :: string
  rp_EncryptedData :: bytes
  rp_Iv :: bytes
  rp_DataType :: string
  rp_ClientId :: string
  rp_OrganizationId :: string
  rp_Metadata :: "(string \<times> string) list"
  rp_CreatedAt :: "timestamp option"
  rp_ExpiresAt :: "timestamp option"

text \<open>
  The JSON object that \<^verbatim>\<open>cacheToken\<close> writes to Redis; the two timestamps are Unix
  seconds and are present only when the request carried them.
\<close>

record cache_entry =
  ce_reference_hash :: string
  ce_encrypted_data :: bytes
  ce_iv :: bytes
  ce_data_type :: string
  ce_client_id :: string
  ce_organization_id :: string
  ce_metadata :: "(string \<times> string) list"
  ce_created_at :: "int option"
  ce_expires_at :: "int option"

text \<open>
  A queue message is JSON text: either the encoding of a \<^verbatim>\<open>StorePIITokenRequest\<close>, or
  a document that \<^verbatim>\<open>json.Unmarshal\<close> rejects for that type.
\<close>

datatype payload = Encoded StorePIITokenRequest | Undecodable string

fun json_Unmarshal :: "payload \<Rightarrow> StorePIITokenRequest option" where
  "json_Unmarshal (Encoded req) = Some req"
| "json_Unmarshal (Undecodable txt) = None"

text \<open>A message of the PGMQ queue: its id, the time from which it is visible, its text.\<close>

record queue_msg =
  msg_id :: int
  vt :: timestamp
  message :: payload

text \<open>\<^verbatim>\<open>TokenRecord\<close> of the PII service.\<close>

record TokenRecord =
  rec_ReferenceHash :: string
  rec_EncryptedData :: bytes
  rec_IV :: bytes
  rec_DataType :: string
  rec_ClientID :: string
  rec_OrganizationID :: string
  rec_CreatedAt :: timestamp
  rec_ExpiresAt :: timestamp
  rec_Metadata :: "(string \<times> string) list"

record TokenizeRequest =
  tq_Data :: string
  tq_DataType :: string
  tq_RetentionPolicy :: string
  tq_ClientId :: string
  tq_OrganizationId :: string
  tq_OrganizationKey :: string
  tq_Metadata :: "(string \<times> string) list"

record TokenizeResponse =
  tr_ReferenceHash :: string
  tr_TokenType :: string
  tr_ExpiresAt :: "timestamp option"
  tr_Status :: string
  tr_ErrorMessage :: string

record DetokenizeRequest =
  dq_ReferenceHash :: string
  dq_Purpose :: string
  dq_RequestingService :: string
  dq_RequestingUser :: string
  dq_OrganizationId :: string
  dq_OrganizationKey :: string

record DetokenizeResponse =
  dr_Data :: string
  dr_DataType :: string
  dr_OriginalTimestamp :: "timestamp option"
  dr_AccessLogged :: bool
  dr_Status :: string
  dr_ErrorMessage :: string

text \<open>
  The state of the system: the fields of \<^verbatim>\<open>PIIService\<close> (the KEK of the static
  provider, the TEK cache, whether \<^verbatim>\<open>pgmqDB\<close> and \<^verbatim>\<open>persistenceClient\<close> are non-nil) and
  what \<^verbatim>\<open>PersistenceService\<close> owns (the two tables, whether \<^verbatim>\<open>redisClient\<close> is non-nil,
  the Redis keys with their expiry deadline, the PGMQ queue).
\<close>

record system =
  kek :: bytes
  tekCache :: "string \<rightharpoonup> OrganizationTEK"
  pgmqDB :: bool
  persistenceClient :: bool
  pii_tokens :: "pii_row list"
  organization_teks :: "tek_row list"
  redisClient :: bool
  redis :: "string \<rightharpoonup> (cache_entry \<times> timestamp)"
  queue :: "queue_msg list"
  next_msg_id :: int

section \<open>Key registry of the persistence service\<close>

text \<open>\<^verbatim>\<open>verifyOrganizationKey\<close> (the same in both services).\<close>

definition verifyOrganizationKey :: "crypto \<Rightarrow> string \<Rightarrow> string \<Rightarrow> bool" where
  "verifyOrganizationKey c orgKey storedHash =
     (EncodeToString (sha256_Sum256 c orgKey) = storedHash)"

text \<open>
  \<^verbatim>\<open>loadTEKFromDatabase\<close>: the first active row of the organization, then the check of
  the presented key against the stored hash.
\<close>

definition loadTEKFromDatabase ::
  "crypto \<Rightarrow> env \<Rightarrow> system \<Rightarrow> string \<Rightarrow> string \<Rightarrow> error + OrganizationTEK" where
  "loadTEKFromDatabase c e s organizationID orgKey =
     (if db_loadTEK_fails e then Inl ErrDatabase
      else
        case find (\<lambda>r. t_organization_id r = organizationID \<and> t_is_active r)
               (organization_teks s) of
          None \<Rightarrow> Inl ErrNoRows
        | Some r \<Rightarrow>
            if \<not> verifyOrganizationKey c orgKey (t_org_key_hash r)
            then Inl ErrKeyVerification
            else Inr \<lparr>tek_OrganizationID = organizationID,
                      tek_EncryptedTEK = t_encrypted_tek r,
                      tek_OrgKeyHash = t_org_key_hash r,
                      tek_CreatedAt = t_created_at r,
                      tek_RotatedAt = t_rotated_at r,
                      tek_Version = t_version r\<rparr>)"

text \<open>
  \<^verbatim>\<open>RetrieveTEK\<close>: every error of the load becomes a response with status
  \<^verbatim>\<open>"error"\<close> (\<open>Inl\<close>), a loaded record becomes a response with status
  \<^verbatim>\<open>"success"\<close> carrying its fields (\<open>Inr\<close>).
\<close>

definition RetrieveTEK ::
  "crypto \<Rightarrow> env \<Rightarrow> system \<Rightarrow> string \<Rightarrow> string \<Rightarrow> error + OrganizationTEK" where
  "RetrieveTEK c e s organizationID orgKey =
     (case loadTEKFromDatabase c e s organizationID orgKey of
        Inl er \<Rightarrow> Inl er
      | Inr tekRecord \<Rightarrow> Inr tekRecord)"

text \<open>
  The statement of \<^verbatim>\<open>saveTEKToDatabase\<close>:
  \<^verbatim>\<open>INSERT ... ON CONFLICT (organization_id) DO UPDATE SET encrypted_tek = EXCLUDED.encrypted_tek,
  org_key_hash = EXCLUDED.org_key_hash, rotated_at = NOW(), version = organization_teks.version + 1,
  is_active = true\<close>.
\<close>

fun upsert_tek :: "OrganizationTEK \<Rightarrow> timestamp \<Rightarrow> tek_row list \<Rightarrow> tek_row list" where
  "upsert_tek tek now [] =
     [\<lparr>t_organization_id = tek_OrganizationID tek,
       t_encrypted_tek = tek_EncryptedTEK tek,
       t_org_key_hash = tek_OrgKeyHash tek,
       t_created_at = tek_CreatedAt tek,
       t_rotated_at = None,
       t_version = tek_Version tek,
       t_is_active = True\<rparr>]"
| "upsert_tek tek now (r # rs) =
     (if t_organization_id r = tek_OrganizationID tek
      then r\<lparr>t_encrypted_tek := tek_EncryptedTEK tek,
              t_org_key_hash := tek_OrgKeyHash tek,
              t_rotated_at := Some now,
              t_version := t_version r + 1,
              t_is_active := True\<rparr> # rs
      else r # upsert_tek tek now rs)"

definition saveTEKToDatabase :: "env \<Rightarrow> system \<Rightarrow> OrganizationTEK \<Rightarrow> system \<times> error option" where
  "saveTEKToDatabase e s tek =
     (if db_saveTEK_fails e then (s, Some ErrDatabase)
      else (s\<lparr>organization_teks := upsert_tek tek (now_db e) (organization_teks s)\<rparr>, None))"

text \<open>
  \<^verbatim>\<open>StoreTEK\<close>. The request carries the fields of the record; the result is the error
  of a response with status \<^verbatim>\<open>"error"\<close>, or \<open>None\<close> for status \<^verbatim>\<open>"success"\<close>.
\<close>

definition StoreTEK :: "env \<Rightarrow> system \<Rightarrow> OrganizationTEK \<Rightarrow> system \<times> error option" where
  "StoreTEK e s req =
     (let tekRecord = \<lparr>tek_OrganizationID = tek_OrganizationID req,
                       tek_EncryptedTEK = tek_EncryptedTEK req,
                       tek_OrgKeyHash = tek_OrgKeyHash req,
                       tek_CreatedAt = tek_CreatedAt req,
                       tek_RotatedAt = tek_RotatedAt req,
                       tek_Version = tek_Version req\<rparr>
      in saveTEKToDatabase e s tekRecord)"

section \<open>Key handling of the PII service\<close>

text \<open>\<^verbatim>\<open>wrapTEKWithKEK\<close>: a fresh 12-byte nonce, prepended to the sealed TEK.\<close>

definition wrapTEKWithKEK :: "crypto \<Rightarrow> env \<Rightarrow> system \<Rightarrow> bytes \<Rightarrow> error + bytes" where
  "wrapTEKWithKEK c e s tek =
     (if \<not> aes_NewCipher (kek s) then Inl ErrCipher
      else
        case rand_Read 12 (rand_tek_iv e) of
          None \<Rightarrow> Inl ErrRandom
        | Some iv \<Rightarrow> Inr (iv @ gcm_Seal c (kek s) iv tek []))"

definition unwrapTEKWithKEK :: "crypto \<Rightarrow> system \<Rightarrow> bytes \<Rightarrow> error + bytes" where
  "unwrapTEKWithKEK c s encryptedTEK =
     (if length encryptedTEK < 12 then Inl ErrTEKTooShort
      else if \<not> aes_NewCipher (kek s) then Inl ErrCipher
      else
        case gcm_Open c (kek s) (take 12 encryptedTEK) (drop 12 encryptedTEK) [] of
          None \<Rightarrow> Inl ErrDecryptTEK
        | Some tek \<Rightarrow> Inr tek)"

text \<open>\<^verbatim>\<open>deriveKeyWithHKDF\<close>: the organization key is the salt, the TEK the key material.\<close>

definition deriveKeyWithHKDF :: "crypto \<Rightarrow> string \<Rightarrow> bytes \<Rightarrow> bytes" where
  "deriveKeyWithHKDF c orgKey tek = hkdf_sha256 c tek orgKey [] 32"

text \<open>
  The branch of \<^verbatim>\<open>getOrCreateTEK\<close> taken when \<^verbatim>\<open>shouldCreateTEK\<close> holds: a new random
  TEK is wrapped, stored through the persistence service and cached.
\<close>

definition createTEK ::
  "crypto \<Rightarrow> env \<Rightarrow> system \<Rightarrow> string \<Rightarrow> string \<Rightarrow> system \<times> (error + OrganizationTEK)" where
  "createTEK c e s organizationID orgKey =
     (case rand_Read 32 (rand_tek e) of
        None \<Rightarrow> (s, Inl ErrRandom)
      | Some tek \<Rightarrow>
          (case wrapTEKWithKEK c e s tek of
             Inl er \<Rightarrow> (s, Inl er)
           | Inr encryptedTEK \<Rightarrow>
               let tekRecord = \<lparr>tek_OrganizationID = organizationID,
                                tek_EncryptedTEK = encryptedTEK,
                                tek_OrgKeyHash = EncodeToString (sha256_Sum256 c orgKey),
                                tek_CreatedAt = now_tek e,
                                tek_RotatedAt = None,
                                tek_Version = 1\<rparr>
               in if rpc_storeTEK_fails e then (s, Inl ErrRpc)
                  else
                    (case StoreTEK e s tekRecord of
                       (s', Some er) \<Rightarrow> (s', Inl ErrStoreTEK)
                     | (s', None) \<Rightarrow>
                         (s'\<lparr>tekCache := (tekCache s')(organizationID \<mapsto> tekRecord)\<rparr>,
                          Inr tekRecord))))"

text \<open>
  \<^verbatim>\<open>getOrCreateTEK\<close>. A cached record whose hash matches is returned; one whose hash
  does not match is removed from the cache. Then the record is asked from the
  persistence service; \<^verbatim>\<open>shouldCreateTEK\<close> holds when the call failed or the response
  status is not \<^verbatim>\<open>"success"\<close>.
\<close>

definition getOrCreateTEK ::
  "crypto \<Rightarrow> env \<Rightarrow> system \<Rightarrow> string \<Rightarrow> string \<Rightarrow> system \<times> (error + OrganizationTEK)" where
  "getOrCreateTEK c e s organizationID orgKey =
     (case (case tekCache s organizationID of
              Some tek \<Rightarrow>
                if verifyOrganizationKey c orgKey (tek_OrgKeyHash tek) then Inl tek
                else Inr (s\<lparr>tekCache := (tekCache s)(organizationID := None)\<rparr>)
            | None \<Rightarrow> Inr s) of
        Inl tek \<Rightarrow> (s, Inr tek)
      | Inr s1 \<Rightarrow>
          if \<not> persistenceClient s1 then (s1, Inl ErrClientUnavailable)
          else
            let retrieveResp =
                  (if rpc_retrieveTEK_fails e then Inl ErrRpc
                   else RetrieveTEK c e s1 organizationID orgKey)
            in (case retrieveResp of
                  Inl er \<Rightarrow> createTEK c e s1 organizationID orgKey
                | Inr tekRecord \<Rightarrow>
                    (s1\<lparr>tekCache := (tekCache s1)(organizationID \<mapsto> tekRecord)\<rparr>,
                     Inr tekRecord)))"

section \<open>Envelope encryption\<close>

text \<open>
  \<^verbatim>\<open>encryptPIIWithEnvelope(data, organizationID, orgKey)\<close> returns the ciphertext and
  the nonce.
\<close>

definition encryptPIIWithEnvelope ::
  "crypto \<Rightarrow> env \<Rightarrow> system \<Rightarrow> string \<Rightarrow> string \<Rightarrow> string \<Rightarrow>
   system \<times> (error + bytes \<times> bytes)" where
  "encryptPIIWithEnvelope c e s data organizationID orgKey =
     (case getOrCreateTEK c e s organizationID orgKey of
        (s', Inl er) \<Rightarrow> (s', Inl er)
      | (s', Inr tekRecord) \<Rightarrow>
          (case unwrapTEKWithKEK c s' (tek_EncryptedTEK tekRecord) of
             Inl er \<Rightarrow> (s', Inl er)
           | Inr tek \<Rightarrow>
               let encryptionKey = deriveKeyWithHKDF c orgKey tek
               in if \<not> aes_NewCipher encryptionKey then (s', Inl ErrCipher)
                  else
                    (case rand_Read 12 (rand_iv e) of
                       None \<Rightarrow> (s', Inl ErrRandom)
                     | Some iv \<Rightarrow>
                         if length iv \<noteq> 12 then (s', Inl ErrIVLength)
                         else (s', Inr (gcm_Seal c encryptionKey iv data [], iv)))))"

definition decryptPIIWithEnvelope ::
  "crypto \<Rightarrow> env \<Rightarrow> system \<Rightarrow> bytes \<Rightarrow> bytes \<Rightarrow> string \<Rightarrow> string \<Rightarrow>
   system \<times> (error + string)" where
  "decryptPIIWithEnvelope c e s ciphertext iv organizationID orgKey =
     (if length iv \<noteq> 12 then (s, Inl ErrIVLength)
      else
        case getOrCreateTEK c e s organizationID orgKey of
          (s', Inl er) \<Rightarrow> (s', Inl er)
        | (s', Inr tekRecord) \<Rightarrow>
            (case unwrapTEKWithKEK c s' (tek_EncryptedTEK tekRecord) of
               Inl er \<Rightarrow> (s', Inl er)
             | Inr tek \<Rightarrow>
                 let encryptionKey = deriveKeyWithHKDF c orgKey tek
                 in if \<not> aes_NewCipher encryptionKey then (s', Inl ErrCipher)
                    else
                      (case gcm_Open c encryptionKey iv ciphertext [] of
                         None \<Rightarrow> (s', Inl ErrDecryptData)
                       | Some plaintext \<Rightarrow> (s', Inr plaintext))))"

section \<open>Durable store and cache of PII records\<close>

text \<open>
  The \<^verbatim>\<open>CHECK\<close> constraint \<^verbatim>\<open>valid_data_type\<close> of table \<^verbatim>\<open>pii_tokens\<close>; the map
  \<^verbatim>\<open>validTypes\<close> of \<^verbatim>\<open>validateTokenizeRequest\<close> holds the same six names.
\<close>

definition validTypes :: "string \<Rightarrow> bool" where
  "validTypes dataType =
     (dataType = ''email'' \<or> dataType = ''ssn'' \<or> dataType = ''phone'' \<or>
      dataType = ''credit_card'' \<or> dataType = ''name'' \<or> dataType = ''address'')"

text \<open>
  The statement of \<^verbatim>\<open>storePIIToken\<close>:
  \<^verbatim>\<open>INSERT INTO pii_tokens (reference_hash, encrypted_data, iv, data_type, client_id,
  organization_id, expires_at, metadata) ... ON CONFLICT (reference_hash) DO UPDATE SET\<close>
  the six columns \<^verbatim>\<open>encrypted_data, iv, data_type, client_id, expires_at, metadata\<close> and
  \<^verbatim>\<open>updated_at = CURRENT_TIMESTAMP\<close>. A new row takes \<^verbatim>\<open>created_at\<close> and
  \<^verbatim>\<open>updated_at\<close> from their column default \<^verbatim>\<open>NOW()\<close>.
\<close>

fun upsert_pii ::
  "StorePIITokenRequest \<Rightarrow> timestamp \<Rightarrow> (string \<times> string) list \<Rightarrow> timestamp \<Rightarrow>
   pii_row list \<Rightarrow> pii_row list" where
  "upsert_pii req expiresAt metadataJSON now [] =
     [\<lparr>p_reference_hash = sp_ReferenceHash req,
       p_encrypted_data = sp_EncryptedData req,
       p_iv = sp_Iv req,
       p_data_type = sp_DataType req,
       p_client_id = sp_ClientId req,
       p_organization_id = sp_OrganizationId req,
       p_created_at = now,
       p_expires_at = expiresAt,
       p_metadata = metadataJSON,
       p_updated_at = now\<rparr>]"
| "upsert_pii req expiresAt metadataJSON now (r # rs) =
     (if p_reference_hash r = sp_ReferenceHash req
      then r\<lparr>p_encrypted_data := sp_EncryptedData req,
              p_iv := sp_Iv req,
              p_data_type := sp_DataType req,
              p_client_id := sp_ClientId req,
              p_expires_at := expiresAt,
              p_metadata := metadataJSON,
              p_updated_at := now\<rparr> # rs
      else r # upsert_pii req expiresAt metadataJSON now rs)"

text \<open>
  Executing the statement: it fails when the database call fails, when
  \<^verbatim>\<open>expires_at\<close> would be \<^verbatim>\<open>NULL\<close> (the column is \<^verbatim>\<open>NOT NULL\<close>) and when the data
  type violates the \<^verbatim>\<open>CHECK\<close> constraint; \<open>None\<close> is the error.
\<close>

definition exec_upsert_pii ::
  "env \<Rightarrow> pii_row list \<Rightarrow> StorePIITokenRequest \<Rightarrow> timestamp option \<Rightarrow>
   (string \<times> string) list \<Rightarrow> pii_row list option" where
  "exec_upsert_pii e tbl req expiresAt metadataJSON =
     (if db_upsert_fails e then None
      else
        case expiresAt of
          None \<Rightarrow> None
        | Some x \<Rightarrow>
            if \<not> validTypes (sp_DataType req) then None
            else Some (upsert_pii req x metadataJSON (now_db e) tbl))"

definition cacheKey :: "string \<Rightarrow> string" where
  "cacheKey hash = ''pii:token:'' @ hash"

text \<open>
  \<^verbatim>\<open>cacheToken\<close>: the entry is stored under a time to live of
  \<^verbatim>\<open>time.Until(expiresAt)\<close>, or of 24 hours when there is no expiry; a time to live
  that is not positive is an error.
\<close>

definition cacheToken ::
  "env \<Rightarrow> system \<Rightarrow> StorePIITokenRequest \<Rightarrow> timestamp option \<Rightarrow> system \<times> error option" where
  "cacheToken e s req expiresAt =
     (if \<not> redisClient s then (s, Some ErrRedis)
      else
        let cacheEntry = \<lparr>ce_reference_hash = sp_ReferenceHash req,
                          ce_encrypted_data = sp_EncryptedData req,
                          ce_iv = sp_Iv req,
                          ce_data_type = sp_DataType req,
                          ce_client_id = sp_ClientId req,
                          ce_organization_id = sp_OrganizationId req,
                          ce_metadata = sp_Metadata req,
                          ce_created_at = map_option Unix (sp_CreatedAt req),
                          ce_expires_at = map_option Unix expiresAt\<rparr>;
            ttl = (case expiresAt of
                     Some x \<Rightarrow> x - now_cache e
                   | None \<Rightarrow> 24 * Hour)
        in if expiresAt \<noteq> None \<and> ttl \<le> 0 then (s, Some ErrAlreadyExpired)
           else if redis_set_fails e then (s, Some ErrRedis)
           else (s\<lparr>redis := (redis s)(cacheKey (sp_ReferenceHash req) \<mapsto>
                                (cacheEntry, now_redis e + ttl))\<rparr>, None))"

text \<open>
  \<^verbatim>\<open>storePIIToken\<close>: the upsert, then the write to the cache when there is a Redis
  client; a failed cache write is logged only.
\<close>

definition storePIIToken ::
  "env \<Rightarrow> system \<Rightarrow> StorePIITokenRequest \<Rightarrow> system \<times> error option" where
  "storePIIToken e s req =
     (let expiresAt = sp_ExpiresAt req;
          metadataJSON = (if length (sp_Metadata req) > 0 then sp_Metadata req else [])
      in case exec_upsert_pii e (pii_tokens s) req expiresAt metadataJSON of
           None \<Rightarrow> (s, Some ErrInsertToken)
         | Some tbl \<Rightarrow>
             let s1 = s\<lparr>pii_tokens := tbl\<rparr>
             in if redisClient s1 then (fst (cacheToken e s1 req expiresAt), None)
                else (s1, None))"

text \<open>Redis \<^verbatim>\<open>GET\<close> and \<^verbatim>\<open>DEL\<close>; a key past its deadline is gone.\<close>

definition redis_Get :: "env \<Rightarrow> system \<Rightarrow> string \<Rightarrow> error + cache_entry" where
  "redis_Get e s k =
     (if redis_get_fails e then Inl ErrRedis
      else
        case redis s k of
          None \<Rightarrow> Inl ErrCacheMiss
        | Some (entry, deadline) \<Rightarrow>
            if deadline \<le> now_redis e then Inl ErrCacheMiss else Inr entry)"

definition redis_Del :: "env \<Rightarrow> system \<Rightarrow> string \<Rightarrow> system" where
  "redis_Del e s k =
     (if redis_del_fails e then s else s\<lparr>redis := (redis s)(k := None)\<rparr>)"

text \<open>
  \<^verbatim>\<open>retrieveFromCache\<close>. The entries are those \<^verbatim>\<open>cacheToken\<close> wrote, so the JSON and
  base64 decoding succeed. The checks of the organization and of the expiry are the
  code's; the two timestamps are JSON numbers, read as \<^verbatim>\<open>float64\<close>. An empty byte slice
  of a request is nil and is written as JSON \<^verbatim>\<open>null\<close>, which is not a string: for an
  empty nonce the code skips the decoding and the length check, and the response
  carries the empty nonce.
\<close>

definition retrieveFromCache ::
  "env \<Rightarrow> system \<Rightarrow> string \<Rightarrow> string \<Rightarrow> system \<times> (error + RetrievePIITokenResponse)" where
  "retrieveFromCache e s hash organizationID =
     (if \<not> redisClient s then (s, Inl ErrRedis)
      else
        case redis_Get e s (cacheKey hash) of
          Inl er \<Rightarrow> (s, Inl er)
        | Inr cacheEntry \<Rightarrow>
            if ce_organization_id cacheEntry \<noteq> organizationID then (s, Inl ErrOrgMismatch)
            else if (case ce_expires_at cacheEntry of
                       Some expiresAtUnix \<Rightarrow>
                         time_Unix (json_float64 expiresAtUnix) < now_cache e
                     | None \<Rightarrow> False)
            then (redis_Del e s (cacheKey hash), Inl ErrTokenExpired)
            else if ce_iv cacheEntry \<noteq> [] \<and> length (ce_iv cacheEntry) \<noteq> 12
            then (redis_Del e s (cacheKey hash), Inl ErrCorruptedCache)
            else (s, Inr \<lparr>rp_ReferenceHash = hash,
                          rp_EncryptedData = ce_encrypted_data cacheEntry,
                          rp_Iv = ce_iv cacheEntry,
                          rp_DataType = ce_data_type cacheEntry,
                          rp_ClientId = ce_client_id cacheEntry,
                          rp_OrganizationId = organizationID,
                          rp_Metadata = ce_metadata cacheEntry,
                          rp_CreatedAt = map_option (\<lambda>createdAtUnix.
                              time_Unix (json_float64 createdAtUnix)) (ce_created_at cacheEntry),
                          rp_ExpiresAt = map_option (\<lambda>expiresAtUnix.
                              time_Unix (json_float64 expiresAtUnix)) (ce_expires_at cacheEntry)\<rparr>))"

text \<open>
  \<^verbatim>\<open>retrieveFromDatabase\<close> of the persistence service:
  \<^verbatim>\<open>SELECT ... FROM pii_tokens WHERE reference_hash = $1 AND organization_id = $2\<close>, then
  the expiry check \<^verbatim>\<open>expiresAt.Before(time.Now())\<close>.
\<close>

definition retrieveFromDatabase ::
  "env \<Rightarrow> system \<Rightarrow> string \<Rightarrow> string \<Rightarrow> error + RetrievePIITokenResponse" where
  "retrieveFromDatabase e s hash organizationID =
     (if db_select_fails e then Inl ErrDatabase
      else
        case find (\<lambda>r. p_reference_hash r = hash \<and> p_organization_id r = organizationID)
               (pii_tokens s) of
          None \<Rightarrow> Inl ErrNoRows
        | Some r \<Rightarrow>
            if p_expires_at r < now_db e then Inl ErrTokenExpired
            else Inr \<lparr>rp_ReferenceHash = hash,
                      rp_EncryptedData = p_encrypted_data r,
                      rp_Iv = p_iv r,
                      rp_DataType = p_data_type r,
                      rp_ClientId = p_client_id r,
                      rp_OrganizationId = organizationID,
                      rp_Metadata = p_metadata r,
                      rp_CreatedAt = Some (p_created_at r),
                      rp_ExpiresAt = Some (p_expires_at r)\<rparr>)"

text \<open>\<^verbatim>\<open>RetrievePIIToken\<close>: the cache first, the database on any cache error.\<close>

definition RetrievePIIToken ::
  "env \<Rightarrow> system \<Rightarrow> string \<Rightarrow> string \<Rightarrow> system \<times> (error + RetrievePIITokenResponse)" where
  "RetrievePIIToken e s hash organizationID =
     (if redisClient s then
        (case retrieveFromCache e s hash organizationID of
           (s', Inr cachedResponse) \<Rightarrow> (s', Inr cachedResponse)
         | (s', Inl er) \<Rightarrow> (s', retrieveFromDatabase e s' hash organizationID))
      else (s, retrieveFromDatabase e s hash organizationID))"

section \<open>Queue and persistence worker\<close>

text \<open>
  \<^verbatim>\<open>pgmq.send\<close> appends a message that is visible at once; \<^verbatim>\<open>pgmq.read(q, vt, qty)\<close>
  returns at most \<open>qty\<close> visible messages, oldest first, and hides each of them for
  \<open>vt\<close> seconds; \<^verbatim>\<open>pgmq.delete\<close> removes a message by id.
\<close>

fun pgmq_read ::
  "timestamp \<Rightarrow> int \<Rightarrow> nat \<Rightarrow> queue_msg list \<Rightarrow> queue_msg list \<times> queue_msg list" where
  "pgmq_read now vtsecs qty [] = ([], [])"
| "pgmq_read now vtsecs qty (m # ms) =
     (if qty = 0 then ([], m # ms)
      else if vt m \<le> now then
        (case pgmq_read now vtsecs (qty - 1) ms of
           (rows, q) \<Rightarrow> (m\<lparr>vt := now + vtsecs * Second\<rparr> # rows,
                        m\<lparr>vt := now + vtsecs * Second\<rparr> # q))
      else
        (case pgmq_read now vtsecs qty ms of
           (rows, q) \<Rightarrow> (rows, m # q)))"

definition deleteMessage :: "env \<Rightarrow> system \<Rightarrow> int \<Rightarrow> system \<times> error option" where
  "deleteMessage e s msgID =
     (if pgmq_delete_fails e then (s, Some ErrDatabase)
      else (s\<lparr>queue := filter (\<lambda>m. msg_id m \<noteq> msgID) (queue s)\<rparr>, None))"

text \<open>The body of the loop of \<^verbatim>\<open>processMessages\<close>, for one row that was read.\<close>

definition processMessage :: "env \<Rightarrow> system \<Rightarrow> queue_msg \<Rightarrow> system" where
  "processMessage e s row =
     (if scan_fails e then s
      else
        case json_Unmarshal (message row) of
          None \<Rightarrow> fst (deleteMessage e s (msg_id row))
        | Some req \<Rightarrow>
            (case storePIIToken e s req of
               (s1, Some er) \<Rightarrow> s1
             | (s1, None) \<Rightarrow> fst (deleteMessage e s1 (msg_id row))))"

text \<open>
  The environment of one run of \<^verbatim>\<open>processMessages\<close>: whether the read fails, the
  queue's clock at the read, and the environment in which each message is handled.
\<close>

record worker_env =
  pgmq_read_fails :: bool
  read_time :: timestamp
  msg_env :: "int \<Rightarrow> env"

definition processMessages :: "worker_env \<Rightarrow> system \<Rightarrow> system" where
  "processMessages we s =
     (if pgmq_read_fails we then s
      else
        case pgmq_read (read_time we) 300 10 (queue s) of
          (rows, q) \<Rightarrow>
            fold (\<lambda>row s'. processMessage (msg_env we (msg_id row)) s' row) rows
              (s\<lparr>queue := q\<rparr>))"

section \<open>Tokenisation engine\<close>

text \<open>The error message of \<^verbatim>\<open>validateTokenizeRequest\<close>, \<open>None\<close> for a valid request.\<close>

definition validateTokenizeRequest :: "TokenizeRequest \<Rightarrow> string option" where
  "validateTokenizeRequest req =
     (if tq_Data req = [] then Some ''data field is required''
      else if tq_DataType req = [] then Some ''dataType field is required''
      else if tq_ClientId req = [] then Some ''clientId field is required''
      else if tq_OrganizationId req = []
      then Some ''organizationId field is required for envelope encryption''
      else if \<not> validTypes (tq_DataType req)
      then Some (''invalid dataType: '' @ tq_DataType req)
      else None)"

definition validateDetokenizeRequest :: "DetokenizeRequest \<Rightarrow> string option" where
  "validateDetokenizeRequest req =
     (if dq_ReferenceHash req = [] then Some ''referenceHash field is required''
      else if dq_Purpose req = [] then Some ''purpose field is required''
      else if dq_RequestingService req = [] then Some ''requestingService field is required''
      else if dq_OrganizationId req = []
      then Some ''organizationId field is required for decryption''
      else None)"

text \<open>\<^verbatim>\<open>generateReferenceHash\<close>: 16 random bytes in hexadecimal.\<close>

definition generateReferenceHash :: "env \<Rightarrow> error + string" where
  "generateReferenceHash e =
     (case rand_Read 16 (rand_ref e) of
        None \<Rightarrow> Inl ErrRandom
      | Some bs \<Rightarrow> Inr (EncodeToString bs))"

definition getRetentionDuration :: "string \<Rightarrow> int" where
  "getRetentionDuration policy =
     (if policy = ''1day'' then 24 * Hour
      else if policy = ''7days'' then 7 * 24 * Hour
      else if policy = ''30days'' then 30 * 24 * Hour
      else if policy = ''1year'' then 365 * 24 * Hour
      else if policy = ''7years'' then 7 * 365 * 24 * Hour
      else 24 * Hour)"

text \<open>
  \<^verbatim>\<open>queueForPersistence\<close>: nothing is done, and no error returned, when \<^verbatim>\<open>pgmqDB\<close> is
  nil; otherwise the record is sent to the queue as a \<^verbatim>\<open>StorePIITokenRequest\<close>.
\<close>

definition queueForPersistence :: "env \<Rightarrow> system \<Rightarrow> TokenRecord \<Rightarrow> system \<times> error option" where
  "queueForPersistence e s tokenRecord =
     (if \<not> pgmqDB s then (s, None)
      else
        let req = \<lparr>sp_ReferenceHash = rec_ReferenceHash tokenRecord,
                   sp_EncryptedData = rec_EncryptedData tokenRecord,
                   sp_Iv = rec_IV tokenRecord,
                   sp_DataType = rec_DataType tokenRecord,
                   sp_ClientId = rec_ClientID tokenRecord,
                   sp_OrganizationId = rec_OrganizationID tokenRecord,
                   sp_Metadata = rec_Metadata tokenRecord,
                   sp_CreatedAt = (if \<not> IsZero (rec_CreatedAt tokenRecord)
                                   then Some (rec_CreatedAt tokenRecord) else None),
                   sp_ExpiresAt = (if \<not> IsZero (rec_ExpiresAt tokenRecord)
                                   then Some (rec_ExpiresAt tokenRecord) else None)\<rparr>
        in if pgmq_send_fails e then (s, Some ErrPublish)
           else (s\<lparr>queue := queue s @ [\<lparr>msg_id = next_msg_id s, vt = now_pgmq e,
                                         message = Encoded req\<rparr>],
                    next_msg_id := next_msg_id s + 1\<rparr>, None))"

definition tokenizeError :: "string \<Rightarrow> TokenizeResponse" where
  "tokenizeError msg =
     \<lparr>tr_ReferenceHash = [], tr_TokenType = [], tr_ExpiresAt = None,
      tr_Status = ''error'', tr_ErrorMessage = msg\<rparr>"

text \<open>\<^verbatim>\<open>Tokenize\<close>. The error of \<^verbatim>\<open>queueForPersistence\<close> is logged and dropped.\<close>

definition Tokenize ::
  "crypto \<Rightarrow> env \<Rightarrow> system \<Rightarrow> TokenizeRequest \<Rightarrow> system \<times> TokenizeResponse" where
  "Tokenize c e s req =
     (case validateTokenizeRequest req of
        Some msg \<Rightarrow> (s, tokenizeError msg)
      | None \<Rightarrow>
          if tq_OrganizationKey req = []
          then (s, tokenizeError ''organizationKey is required for envelope encryption'')
          else
            (case generateReferenceHash e of
               Inl er \<Rightarrow> (s, tokenizeError ''failed to generate reference hash'')
             | Inr referenceHash \<Rightarrow>
                 let retentionDuration = getRetentionDuration (tq_RetentionPolicy req);
                     expiresAt = now_expiry e + retentionDuration
                 in (case encryptPIIWithEnvelope c e s (tq_Data req) (tq_OrganizationId req)
                            (tq_OrganizationKey req) of
                       (s1, Inl er) \<Rightarrow> (s1, tokenizeError ''failed to encrypt PII data'')
                     | (s1, Inr (encryptedData, iv)) \<Rightarrow>
                         let tokenRecord = \<lparr>rec_ReferenceHash = referenceHash,
                                            rec_EncryptedData = encryptedData,
                                            rec_IV = iv,
                                            rec_DataType = tq_DataType req,
                                            rec_ClientID = tq_ClientId req,
                                            rec_OrganizationID = tq_OrganizationId req,
                                            rec_CreatedAt = now_created e,
                                            rec_ExpiresAt = expiresAt,
                                            rec_Metadata = tq_Metadata req\<rparr>
                         in (fst (queueForPersistence e s1 tokenRecord),
                             \<lparr>tr_ReferenceHash = ''tok_'' @ referenceHash,
                              tr_TokenType = ''PII_TOKEN_V2_ENVELOPE'',
                              tr_ExpiresAt = Some (rec_ExpiresAt tokenRecord),
                              tr_Status = ''success'',
                              tr_ErrorMessage = []\<rparr>))))"

text \<open>
  \<^verbatim>\<open>retrieveFromDatabase\<close> of the PII service: the call to \<^verbatim>\<open>RetrievePIIToken\<close>
  through the persistence client. A missing timestamp leaves the zero time in the
  record.
\<close>

definition pii_retrieveFromDatabase ::
  "env \<Rightarrow> system \<Rightarrow> string \<Rightarrow> string \<Rightarrow> system \<times> (error + TokenRecord)" where
  "pii_retrieveFromDatabase e s hash organizationID =
     (if \<not> persistenceClient s then (s, Inl ErrTokenNotFound)
      else if rpc_retrievePII_fails e then (s, Inl ErrRpc)
      else
        case RetrievePIIToken e s hash organizationID of
          (s', Inl er) \<Rightarrow> (s', Inl ErrTokenNotFound)
        | (s', Inr resp) \<Rightarrow>
            (s', Inr \<lparr>rec_ReferenceHash = rp_ReferenceHash resp,
                       rec_EncryptedData = rp_EncryptedData resp,
                       rec_IV = rp_Iv resp,
                       rec_DataType = rp_DataType resp,
                       rec_ClientID = rp_ClientId resp,
                       rec_OrganizationID = rp_OrganizationId resp,
                       rec_CreatedAt = (case rp_CreatedAt resp of
                                          Some t \<Rightarrow> t | None \<Rightarrow> zeroTime),
                       rec_ExpiresAt = (case rp_ExpiresAt resp of
                                          Some t \<Rightarrow> t | None \<Rightarrow> zeroTime),
                       rec_Metadata = rp_Metadata resp\<rparr>))"

text \<open>
  The hash that \<^verbatim>\<open>Detokenize\<close> looks up:
  \<^verbatim>\<open>if len(hashOnly) > 4 && hashOnly[:4] == "tok_" { hashOnly = hashOnly[4:] }\<close>.
\<close>

definition hashOnly :: "string \<Rightarrow> string" where
  "hashOnly referenceHash =
     (if length referenceHash > 4 \<and> take 4 referenceHash = ''tok_''
      then drop 4 referenceHash else referenceHash)"

definition detokenizeError :: "string \<Rightarrow> DetokenizeResponse" where
  "detokenizeError msg =
     \<lparr>dr_Data = [], dr_DataType = [], dr_OriginalTimestamp = None,
      dr_AccessLogged = False, dr_Status = ''error'', dr_ErrorMessage = msg\<rparr>"

definition Detokenize ::
  "crypto \<Rightarrow> env \<Rightarrow> system \<Rightarrow> DetokenizeRequest \<Rightarrow> system \<times> DetokenizeResponse" where
  "Detokenize c e s req =
     (case validateDetokenizeRequest req of
        Some msg \<Rightarrow> (s, detokenizeError msg)
      | None \<Rightarrow>
          if dq_OrganizationKey req = []
          then (s, detokenizeError ''organizationKey is required for decryption'')
          else
            (case pii_retrieveFromDatabase e s (hashOnly (dq_ReferenceHash req))
                    (dq_OrganizationId req) of
               (s1, Inl er) \<Rightarrow> (s1, detokenizeError ''token not found'')
             | (s1, Inr tokenRecord) \<Rightarrow>
                 if rec_ExpiresAt tokenRecord < now_check e
                 then (s1, detokenizeError ''token has expired'')
                 else
                   (case decryptPIIWithEnvelope c e s1 (rec_EncryptedData tokenRecord)
                           (rec_IV tokenRecord) (rec_OrganizationID tokenRecord)
                           (dq_OrganizationKey req) of
                      (s2, Inl er) \<Rightarrow>
                        (s2, detokenizeError
                               ''failed to decrypt PII data - invalid organization key'')
                    | (s2, Inr decryptedData) \<Rightarrow>
                        (s2, \<lparr>dr_Data = decryptedData,
                              dr_DataType = rec_DataType tokenRecord,
                              dr_OriginalTimestamp = Some (rec_CreatedAt tokenRecord),
                              dr_AccessLogged = True,
                              dr_Status = ''success'',
                              dr_ErrorMessage = []\<rparr>))))"

section \<open>Notions used in the statements\<close>

text \<open>The row that \<^verbatim>\<open>saveTEKToDatabase\<close> inserts, and the row it turns an existing one into.\<close>

definition tek_inserted :: "OrganizationTEK \<Rightarrow> tek_row" where
  "tek_inserted tek =
     \<lparr>t_organization_id = tek_OrganizationID tek,
      t_encrypted_tek = tek_EncryptedTEK tek,
      t_org_key_hash = tek_OrgKeyHash tek,
      t_created_at = tek_CreatedAt tek,
      t_rotated_at = None,
      t_version = tek_Version tek,
      t_is_active = True\<rparr>"

definition tek_replaced :: "OrganizationTEK \<Rightarrow> timestamp \<Rightarrow> tek_row \<Rightarrow> tek_row" where
  "tek_replaced tek now r =
     r\<lparr>t_encrypted_tek := tek_EncryptedTEK tek,
       t_org_key_hash := tek_OrgKeyHash tek,
       t_rotated_at := Some now,
       t_version := t_version r + 1,
       t_is_active := True\<rparr>"

text \<open>
  The columns of a \<^verbatim>\<open>pii_tokens\<close> row other than \<^verbatim>\<open>updated_at\<close>, and the property
  that the row of a request's reference carries the values of the request.
\<close>

definition row_contents ::
  "pii_row \<Rightarrow> string \<times> bytes \<times> bytes \<times> string \<times> string \<times> string \<times> timestamp \<times>
     (string \<times> string) list \<times> timestamp" where
  "row_contents r =
     (p_reference_hash r, p_encrypted_data r, p_iv r, p_data_type r, p_client_id r,
      p_organization_id r, p_expires_at r, p_metadata r, p_created_at r)"

definition stored ::
  "StorePIITokenRequest \<Rightarrow> timestamp \<Rightarrow> (string \<times> string) list \<Rightarrow> pii_row list \<Rightarrow> bool" where
  "stored req expiresAt metadataJSON tbl =
     (case find (\<lambda>r. p_reference_hash r = sp_ReferenceHash req) tbl of
        None \<Rightarrow> False
      | Some r \<Rightarrow>
          p_encrypted_data r = sp_EncryptedData req \<and> p_iv r = sp_Iv req \<and>
          p_data_type r = sp_DataType req \<and> p_client_id r = sp_ClientId req \<and>
          p_expires_at r = expiresAt \<and> p_metadata r = metadataJSON)"

text \<open>
  When the statement of \<^verbatim>\<open>storePIIToken\<close> fails for a request, and when the loop body
  of the worker deletes the message it handles: the row was scanned, the delete call
  works, and the message either does not decode or was stored.
\<close>

definition upsert_rejected :: "env \<Rightarrow> StorePIITokenRequest \<Rightarrow> bool" where
  "upsert_rejected e req =
     (db_upsert_fails e \<or> sp_ExpiresAt req = None \<or> \<not> validTypes (sp_DataType req))"

definition deletes :: "env \<Rightarrow> queue_msg \<Rightarrow> bool" where
  "deletes e row =
     (\<not> scan_fails e \<and> \<not> pgmq_delete_fails e \<and>
      (case json_Unmarshal (message row) of
         None \<Rightarrow> True
       | Some req \<Rightarrow> \<not> upsert_rejected e req))"






text \<open>
  The parts of the state that resolving a TEK never touches: everything except the
  TEK cache and the table \<^verbatim>\<open>organization_teks\<close>.
\<close>

definition same_pipeline :: "system \<Rightarrow> system \<Rightarrow> bool" where
  "same_pipeline s s' =
     (kek s' = kek s \<and> pgmqDB s' = pgmqDB s \<and> persistenceClient s' = persistenceClient s \<and>
      pii_tokens s' = pii_tokens s \<and> redisClient s' = redisClient s \<and> redis s' = redis s \<and>
      queue s' = queue s \<and> next_msg_id s' = next_msg_id s)"

section \<open>A concrete instance for running the model\<close>

text \<open>
  The results below hold for every choice of the library primitives. To run the model
  on concrete requests, the primitives are instantiated with small stand-ins that have
  the interface of the real ones: a digest that pads or cuts its input, and a cipher
  whose ciphertext is the plaintext followed by a 16-byte tag computed from the
  associated data, the nonce and the key.
\<close>

definition pad_to :: "nat \<Rightarrow> bytes \<Rightarrow> bytes" where
  "pad_to n x = take n (x @ replicate n (CHR 0x00))"

definition demo_tag :: "bytes \<Rightarrow> bytes \<Rightarrow> bytes \<Rightarrow> bytes" where
  "demo_tag key nonce aad = pad_to 16 (aad @ nonce @ key)"

definition demo_crypto :: crypto where
  "demo_crypto =
     \<lparr>sha256_Sum256 = pad_to 32,
      hkdf_sha256 = (\<lambda>ikm salt info n. pad_to n (salt @ ikm @ info)),
      gcm_Seal = (\<lambda>key nonce plaintext aad. plaintext @ demo_tag key nonce aad),
      gcm_Open = (\<lambda>key nonce ciphertext aad.
         if 16 \<le> length ciphertext \<and>
            drop (length ciphertext - 16) ciphertext = demo_tag key nonce aad
         then Some (take (length ciphertext - 16) ciphertext) else None)\<rparr>"

text \<open>An environment in which nothing fails; the clock reads 1700000000 seconds.\<close>

definition demo_env :: env where
  "demo_env =
     \<lparr>now_expiry = 1700000000 * Second,
      now_created = 1700000000 * Second,
      now_tek = 1700000000 * Second,
      now_check = 1700000000 * Second,
      now_cache = 1700000000 * Second,
      now_redis = 1700000000 * Second,
      now_db = 1700000000 * Second,
      now_pgmq = 1700000000 * Second,
      rand_ref = Some ''0123456789abcdef'',
      rand_tek = Some ''tek-tek-tek-tek-tek-tek-tek-tek-'',
      rand_tek_iv = Some ''wrap-nonce-1'',
      rand_iv = Some ''data-nonce-1'',
      rpc_retrieveTEK_fails = False,
      rpc_storeTEK_fails = False,
      rpc_retrievePII_fails = False,
      db_loadTEK_fails = False,
      db_saveTEK_fails = False,
      db_upsert_fails = False,
      db_select_fails = False,
      redis_get_fails = False,
      redis_set_fails = False,
      redis_del_fails = False,
      pgmq_send_fails = False,
      pgmq_delete_fails = False,
      scan_fails = False\<rparr>"

text \<open>A freshly started system: empty tables, cache and queue.\<close>

definition demo_system :: system where
  "demo_system =
     \<lparr>kek = ''kek-kek-kek-kek-kek-kek-kek-kek-'',
      tekCache = Map.empty,
      pgmqDB = True,
      persistenceClient = True,
      pii_tokens = [],
      organization_teks = [],
      redisClient = True,
      redis = Map.empty,
      queue = [],
      next_msg_id = 1\<rparr>"

definition demo_request :: TokenizeRequest where
  "demo_request =
     \<lparr>tq_Data = ''user@example.com'',
      tq_DataType = ''email'',
      tq_RetentionPolicy = ''1day'',
      tq_ClientId = ''c1'',
      tq_OrganizationId = ''acme'',
      tq_OrganizationKey = ''s3cret'',
      tq_Metadata = []\<rparr>"

text \<open>Two TEK records of the same organization, as two \<^verbatim>\<open>StoreTEK\<close> requests carry them.\<close>

definition demo_tek_first :: OrganizationTEK where
  "demo_tek_first =
     \<lparr>tek_OrganizationID = ''acme'',
      tek_EncryptedTEK = ''first-wrapped-tek'',
      tek_OrgKeyHash = ''first-hash'',
      tek_CreatedAt = 1600000000 * Second,
      tek_RotatedAt = None,
      tek_Version = 1\<rparr>"

definition demo_tek_second :: OrganizationTEK where
  "demo_tek_second =
     \<lparr>tek_OrganizationID = ''acme'',
      tek_EncryptedTEK = ''second-wrapped-tek'',
      tek_OrgKeyHash = ''second-hash'',
      tek_CreatedAt = 1650000000 * Second,
      tek_RotatedAt = None,
      tek_Version = 1\<rparr>"

text \<open>The message that the demo tokenisation queues.\<close>

definition demo_store_request :: StorePIITokenRequest where
  "demo_store_request =
     \<lparr>sp_ReferenceHash = ''30313233343536373839616263646566'',
      sp_EncryptedData = ''user@example.comdata-nonce-1s3cr'',
      sp_Iv = ''data-nonce-1'',
      sp_DataType = ''email'',
      sp_ClientId = ''c1'',
      sp_OrganizationId = ''acme'',
      sp_Metadata = [],
      sp_CreatedAt = Some (1700000000 * Second),
      sp_ExpiresAt = Some (1700086400 * Second)\<rparr>"

text \<open>
  A queue of three messages: one that does not decode, one whose upsert will fail, one
  that is stored; and the environment of a worker run in which the database fails for
  message 2 only.
\<close>

definition demo_queue :: "queue_msg list" where
  "demo_queue =
     [\<lparr>msg_id = 1, vt = 1700000000 * Second, message = Undecodable ''[1, 2, 3]''\<rparr>,
      \<lparr>msg_id = 2, vt = 1700000000 * Second,
       message = Encoded (demo_store_request\<lparr>sp_ReferenceHash := ''aaaa''\<rparr>)\<rparr>,
      \<lparr>msg_id = 3, vt = 1700000000 * Second, message = Encoded demo_store_request\<rparr>]"

definition demo_worker_env :: worker_env where
  "demo_worker_env =
     \<lparr>pgmq_read_fails = False,
      read_time = 1700000001 * Second,
      msg_env = (\<lambda>i. demo_env\<lparr>db_upsert_fails := (i = 2)\<rparr>)\<rparr>"

text \<open>
  The system after the demo tokenisation, and after the worker's store of the queued
  message; the request that detokenises the reference; an environment with other
  random bytes and a later clock, for a second request.
\<close>

definition demo_system_tokenized :: system where
  "demo_system_tokenized = fst (Tokenize demo_crypto demo_env demo_system demo_request)"

definition demo_system_stored :: system where
  "demo_system_stored = fst (storePIIToken demo_env demo_system_tokenized demo_store_request)"

definition demo_detokenize_request :: DetokenizeRequest where
  "demo_detokenize_request =
     \<lparr>dq_ReferenceHash = ''tok_30313233343536373839616263646566'',
      dq_Purpose = ''support'',
      dq_RequestingService = ''crm'',
      dq_RequestingUser = [],
      dq_OrganizationId = ''acme'',
      dq_OrganizationKey = ''s3cret''\<rparr>"

definition demo_env_later :: env where
  "demo_env_later =
     demo_env\<lparr>now_expiry := 1700000100 * Second,
              now_created := 1700000100 * Second,
              now_tek := 1700000100 * Second,
              now_check := 1700000100 * Second,
              now_cache := 1700000100 * Second,
              now_redis := 1700000100 * Second,
              now_db := 1700000100 * Second,
              now_pgmq := 1700000100 * Second,
              rand_ref := Some ''fedcba9876543210'',
              rand_tek := Some ''TEK+TEK+TEK+TEK+TEK+TEK+TEK+TEK+'',
              rand_tek_iv := Some ''wrap-nonce-2'',
              rand_iv := Some ''data-nonce-2''\<rparr>"

text \<open>
  An environment in which the clock has advanced by five seconds between the reading
  taken for the expiry and the one taken for the creation time of the record.
\<close>

definition demo_env_slow :: env where
  "demo_env_slow = demo_env\<lparr>now_created := 1700000005 * Second\<rparr>"


definition demo_system_uncached :: system where
  "demo_system_uncached = demo_system_stored\<lparr>redisClient := False\<rparr>"

definition demo_system_tok :: system where
  "demo_system_tok =
     demo_system_uncached
       \<lparr>pii_tokens := map (\<lambda>r. r\<lparr>p_reference_hash := ''tok_''\<rparr>) (pii_tokens demo_system_uncached)\<rparr>"

text \<open>
  A second stand-in for the primitives, in which the derived key starts with the TEK,
  so that the tag of a ciphertext depends on the TEK; and the system after a
  tokenisation with it and a run of the worker.
\<close>

definition demo_crypto_keyed :: crypto where
  "demo_crypto_keyed =
     demo_crypto\<lparr>hkdf_sha256 := (\<lambda>ikm salt info n. pad_to n (ikm @ salt @ info))\<rparr>"

definition demo_system_stored_keyed :: system where
  "demo_system_stored_keyed =
     processMessages demo_worker_env
       (fst (Tokenize demo_crypto_keyed demo_env demo_system demo_request))"

section \<open>Frame lemmas\<close>

lemma createTEK_frame:
  "createTEK c e s org key = (s', r) \<Longrightarrow> same_pipeline s s'"
  by (auto simp: createTEK_def StoreTEK_def saveTEKToDatabase_def same_pipeline_def Let_def
      split: option.splits sum.splits if_splits prod.splits)

lemma getOrCreateTEK_frame:
  "getOrCreateTEK c e s org key = (s', r) \<Longrightarrow> same_pipeline s s'"
  unfolding getOrCreateTEK_def
  by (auto simp: same_pipeline_def Let_def dest!: createTEK_frame
      split: option.splits sum.splits if_splits prod.splits)

lemma encryptPIIWithEnvelope_frame:
  "encryptPIIWithEnvelope c e s d org key = (s', r) \<Longrightarrow> same_pipeline s s'"
  unfolding encryptPIIWithEnvelope_def
  by (auto simp: Let_def dest: getOrCreateTEK_frame
      split: option.splits sum.splits if_splits prod.splits)

lemma decryptPIIWithEnvelope_frame:
  "decryptPIIWithEnvelope c e s ct iv org key = (s', r) \<Longrightarrow> same_pipeline s s'"
  unfolding decryptPIIWithEnvelope_def
  by (auto simp: Let_def same_pipeline_def dest: getOrCreateTEK_frame
      split: option.splits sum.splits if_splits prod.splits)


section \<open>Structure of a successful tokenisation\<close>

lemma getRetentionDuration_table:
  "getRetentionDuration ''1day'' = 24 * Hour"
  "getRetentionDuration ''7days'' = 168 * Hour"
  "getRetentionDuration ''30days'' = 720 * Hour"
  "getRetentionDuration ''1year'' = 8760 * Hour"
  "getRetentionDuration ''7years'' = 61320 * Hour"
  by (simp_all add: getRetentionDuration_def)

lemma getRetentionDuration_default:
  "policy \<notin> {''1day'', ''7days'', ''30days'', ''1year'', ''7years''} \<Longrightarrow>
   getRetentionDuration policy = 24 * Hour"
  by (simp add: getRetentionDuration_def)

text \<open>What a successful \<^verbatim>\<open>Tokenize\<close> did.\<close>

lemma Tokenize_success:
  assumes "Tokenize c e s req = (s', resp)" and "tr_Status resp = ''success''"
  shows "\<exists>bs s1 ct iv.
           validateTokenizeRequest req = None \<and> tq_OrganizationKey req \<noteq> [] \<and>
           rand_ref e = Some bs \<and> length bs = 16 \<and>
           encryptPIIWithEnvelope c e s (tq_Data req) (tq_OrganizationId req)
             (tq_OrganizationKey req) = (s1, Inr (ct, iv)) \<and>
           s' = fst (queueForPersistence e s1
                  \<lparr>rec_ReferenceHash = EncodeToString bs,
                   rec_EncryptedData = ct,
                   rec_IV = iv,
                   rec_DataType = tq_DataType req,
                   rec_ClientID = tq_ClientId req,
                   rec_OrganizationID = tq_OrganizationId req,
                   rec_CreatedAt = now_created e,
                   rec_ExpiresAt = now_expiry e + getRetentionDuration (tq_RetentionPolicy req),
                   rec_Metadata = tq_Metadata req\<rparr>) \<and>
           resp = \<lparr>tr_ReferenceHash = ''tok_'' @ EncodeToString bs,
                   tr_TokenType = ''PII_TOKEN_V2_ENVELOPE'',
                   tr_ExpiresAt = Some (now_expiry e + getRetentionDuration (tq_RetentionPolicy req)),
                   tr_Status = ''success'',
                   tr_ErrorMessage = []\<rparr>"
  using assms
  by (auto simp: Tokenize_def tokenizeError_def generateReferenceHash_def rand_Read_def Let_def
      split: option.splits if_splits sum.splits prod.splits)


section \<open>The reference prefix\<close>


text \<open>
  A valid request to a reachable persistence service: the response in terms of what
  \<^verbatim>\<open>RetrievePIIToken\<close> returns for the hash looked up.
\<close>

lemma Detokenize_lookup:
  assumes "validateDetokenizeRequest req = None" and "dq_OrganizationKey req \<noteq> []"
    and "persistenceClient s" and "\<not> rpc_retrievePII_fails e"
  shows "Detokenize c e s req =
     (case RetrievePIIToken e s (hashOnly (dq_ReferenceHash req)) (dq_OrganizationId req) of
        (s1, Inl er) \<Rightarrow> (s1, detokenizeError ''token not found'')
      | (s1, Inr resp) \<Rightarrow>
          if (case rp_ExpiresAt resp of Some t \<Rightarrow> t | None \<Rightarrow> zeroTime) < now_check e
          then (s1, detokenizeError ''token has expired'')
          else
            (case decryptPIIWithEnvelope c e s1 (rp_EncryptedData resp) (rp_Iv resp)
                    (rp_OrganizationId resp) (dq_OrganizationKey req) of
               (s2, Inl er) \<Rightarrow>
                 (s2, detokenizeError ''failed to decrypt PII data - invalid organization key'')
             | (s2, Inr decryptedData) \<Rightarrow>
                 (s2, \<lparr>dr_Data = decryptedData,
                       dr_DataType = rp_DataType resp,
                       dr_OriginalTimestamp =
                         Some (case rp_CreatedAt resp of Some t \<Rightarrow> t | None \<Rightarrow> zeroTime),
                       dr_AccessLogged = True,
                       dr_Status = ''success'',
                       dr_ErrorMessage = []\<rparr>)))"
  using assms
  by (simp add: Detokenize_def pii_retrieveFromDatabase_def split: prod.splits sum.splits)

text \<open>
  Claim C10. \<^verbatim>\<open>Detokenize\<close> strips the prefix \<^verbatim>\<open>tok_\<close> from the reference exactly when
  the reference is longer than 4 characters and starts with \<^verbatim>\<open>tok_\<close>, and looks up
  what is left; every other reference, the 4-character string \<^verbatim>\<open>tok_\<close> and a bare hash
  included, is looked up as it is. For a valid request with the persistence service
  reachable, let \<open>k\<close> be the reference without its prefix in the first case and the
  reference itself otherwise. Then
  \<^item> the answer is \<^verbatim>\<open>token not found\<close> exactly when \<^verbatim>\<open>RetrievePIIToken\<close> fails for \<open>k\<close>
    and the organization of the request;
  \<^item> without a cache, the answer is computed from the row of \<^verbatim>\<open>pii_tokens\<close> whose
    reference hash is \<open>k\<close>: \<^verbatim>\<open>token not found\<close> when the organization has no such row or
    the row has expired at the store, and otherwise the expiry check and the
    decryption of that row;
  \<^item> with a cache, nothing under the cache key of \<open>k\<close> and no such row give
    \<^verbatim>\<open>token not found\<close>.
\<close>

theorem Detokenize_strips_tok_prefix:
  assumes valid: "validateDetokenizeRequest req = None" "dq_OrganizationKey req \<noteq> []"
    and reach: "persistenceClient s" "\<not> rpc_retrievePII_fails e"
    and k: "k = (if 4 < length (dq_ReferenceHash req) \<and> take 4 (dq_ReferenceHash req) = ''tok_''
                 then drop 4 (dq_ReferenceHash req) else dq_ReferenceHash req)"
  shows "((snd (Detokenize c e s req) = detokenizeError ''token not found'') =
          (\<exists>er. snd (RetrievePIIToken e s k (dq_OrganizationId req)) = Inl er))
    \<and> (\<not> redisClient s \<and> \<not> db_select_fails e \<longrightarrow>
         snd (Detokenize c e s req) =
           (case find (\<lambda>r. p_reference_hash r = k \<and> p_organization_id r = dq_OrganizationId req)
                   (pii_tokens s) of
              None \<Rightarrow> detokenizeError ''token not found''
            | Some r \<Rightarrow>
                if p_expires_at r < now_db e then detokenizeError ''token not found''
                else if p_expires_at r < now_check e then detokenizeError ''token has expired''
                else
                  (case snd (decryptPIIWithEnvelope c e s (p_encrypted_data r) (p_iv r)
                               (dq_OrganizationId req) (dq_OrganizationKey req)) of
                     Inl er \<Rightarrow>
                       detokenizeError ''failed to decrypt PII data - invalid organization key''
                   | Inr decryptedData \<Rightarrow>
                       \<lparr>dr_Data = decryptedData,
                        dr_DataType = p_data_type r,
                        dr_OriginalTimestamp = Some (p_created_at r),
                        dr_AccessLogged = True,
                        dr_Status = ''success'',
                        dr_ErrorMessage = []\<rparr>)))
    \<and> (redisClient s \<and> \<not> redis_get_fails e \<and> \<not> db_select_fails e \<and>
        redis s (cacheKey k) = None \<and>
        find (\<lambda>r. p_reference_hash r = k \<and> p_organization_id r = dq_OrganizationId req)
          (pii_tokens s) = None \<longrightarrow>
          snd (Detokenize c e s req) = detokenizeError ''token not found'')"
proof -
  have hk: "hashOnly (dq_ReferenceHash req) = k"
    by (simp add: hashOnly_def k)
  note D = Detokenize_lookup [OF valid reach, of c, unfolded hk]
  have a: "(snd (Detokenize c e s req) = detokenizeError ''token not found'') =
          (\<exists>er. snd (RetrievePIIToken e s k (dq_OrganizationId req)) = Inl er)"
    unfolding D
    by (auto simp: detokenizeError_def split: prod.splits sum.splits)
  have b: "snd (Detokenize c e s req) =
           (case find (\<lambda>r. p_reference_hash r = k \<and> p_organization_id r = dq_OrganizationId req)
                   (pii_tokens s) of
              None \<Rightarrow> detokenizeError ''token not found''
            | Some r \<Rightarrow>
                if p_expires_at r < now_db e then detokenizeError ''token not found''
                else if p_expires_at r < now_check e then detokenizeError ''token has expired''
                else
                  (case snd (decryptPIIWithEnvelope c e s (p_encrypted_data r) (p_iv r)
                               (dq_OrganizationId req) (dq_OrganizationKey req)) of
                     Inl er \<Rightarrow>
                       detokenizeError ''failed to decrypt PII data - invalid organization key''
                   | Inr decryptedData \<Rightarrow>
                       \<lparr>dr_Data = decryptedData,
                        dr_DataType = p_data_type r,
                        dr_OriginalTimestamp = Some (p_created_at r),
                        dr_AccessLogged = True,
                        dr_Status = ''success'',
                        dr_ErrorMessage = []\<rparr>))"
    if "\<not> redisClient s" "\<not> db_select_fails e"
    unfolding D using that
    by (simp add: RetrievePIIToken_def retrieveFromDatabase_def
        split: option.splits prod.splits sum.splits)
  have c: "snd (Detokenize c e s req) = detokenizeError ''token not found''"
    if "redisClient s" "\<not> redis_get_fails e" "\<not> db_select_fails e"
      "redis s (cacheKey k) = None"
      "find (\<lambda>r. p_reference_hash r = k \<and> p_organization_id r = dq_OrganizationId req)
          (pii_tokens s) = None"
    unfolding D using that
    by (simp add: RetrievePIIToken_def retrieveFromCache_def redis_Get_def
        retrieveFromDatabase_def)
  from a b c show ?thesis by blast
qed

text \<open>
  An instance without a cache: the stored row is found under its bare hash and under
  the prefixed reference; the reference \<^verbatim>\<open>tok_\<close> is not found there, and is found in a
  table whose row has the reference hash \<^verbatim>\<open>tok_\<close>.
\<close>

lemma demo_uncached_row:
  "find (\<lambda>r. p_reference_hash r = ''30313233343536373839616263646566'' \<and>
              p_organization_id r = ''acme'') (pii_tokens demo_system_uncached) =
     Some \<lparr>p_reference_hash = ''30313233343536373839616263646566'',
           p_encrypted_data = ''user@example.comdata-nonce-1s3cr'',
           p_iv = ''data-nonce-1'',
           p_data_type = ''email'',
           p_client_id = ''c1'',
           p_organization_id = ''acme'',
           p_created_at = 1700000000 * Second,
           p_expires_at = 1700086400 * Second,
           p_metadata = [],
           p_updated_at = 1700000000 * Second\<rparr>
   \<and> find (\<lambda>r. p_reference_hash r = ''tok_'' \<and> p_organization_id r = ''acme'')
        (pii_tokens demo_system_uncached) = None
   \<and> find (\<lambda>r. p_reference_hash r = ''tok_'' \<and> p_organization_id r = ''acme'')
        (pii_tokens demo_system_tok) =
     Some \<lparr>p_reference_hash = ''tok_'',
           p_encrypted_data = ''user@example.comdata-nonce-1s3cr'',
           p_iv = ''data-nonce-1'',
           p_data_type = ''email'',
           p_client_id = ''c1'',
           p_organization_id = ''acme'',
           p_created_at = 1700000000 * Second,
           p_expires_at = 1700086400 * Second,
           p_metadata = [],
           p_updated_at = 1700000000 * Second\<rparr>
   \<and> snd (decryptPIIWithEnvelope demo_crypto demo_env_later demo_system_uncached
        ''user@example.comdata-nonce-1s3cr'' ''data-nonce-1'' ''acme'' ''s3cret'') =
       Inr ''user@example.com''
   \<and> snd (decryptPIIWithEnvelope demo_crypto demo_env_later demo_system_tok
        ''user@example.comdata-nonce-1s3cr'' ''data-nonce-1'' ''acme'' ''s3cret'') =
       Inr ''user@example.com''"
  by code_simp

theorem Detokenize_strips_tok_prefix_witness:
  "snd (Detokenize demo_crypto demo_env_later demo_system_uncached
      (demo_detokenize_request\<lparr>dq_ReferenceHash := ''tok_30313233343536373839616263646566''\<rparr>)) =
     \<lparr>dr_Data = ''user@example.com'', dr_DataType = ''email'',
      dr_OriginalTimestamp = Some (1700000000 * Second), dr_AccessLogged = True,
      dr_Status = ''success'', dr_ErrorMessage = []\<rparr>
   \<and> snd (Detokenize demo_crypto demo_env_later demo_system_uncached
      (demo_detokenize_request\<lparr>dq_ReferenceHash := ''30313233343536373839616263646566''\<rparr>)) =
     \<lparr>dr_Data = ''user@example.com'', dr_DataType = ''email'',
      dr_OriginalTimestamp = Some (1700000000 * Second), dr_AccessLogged = True,
      dr_Status = ''success'', dr_ErrorMessage = []\<rparr>
   \<and> snd (Detokenize demo_crypto demo_env_later demo_system_uncached
      (demo_detokenize_request\<lparr>dq_ReferenceHash := ''tok_''\<rparr>)) =
     detokenizeError ''token not found''
   \<and> snd (Detokenize demo_crypto demo_env_later demo_system_tok
      (demo_detokenize_request\<lparr>dq_ReferenceHash := ''tok_''\<rparr>)) =
     \<lparr>dr_Data = ''user@example.com'', dr_DataType = ''email'',
      dr_OriginalTimestamp = Some (1700000000 * Second), dr_AccessLogged = True,
      dr_Status = ''success'', dr_ErrorMessage = []\<rparr>
   \<and> snd (Detokenize demo_crypto demo_env_later demo_system_tok
      (demo_detokenize_request\<lparr>dq_ReferenceHash := ''30313233343536373839616263646566''\<rparr>)) =
     detokenizeError ''token not found''"
proof -
  have valid: "validateDetokenizeRequest (demo_detokenize_request\<lparr>dq_ReferenceHash := r\<rparr>) = None"
    if "r \<noteq> []" for r
    using that by (simp add: validateDetokenizeRequest_def demo_detokenize_request_def)
  have key: "dq_OrganizationKey (demo_detokenize_request\<lparr>dq_ReferenceHash := r\<rparr>) \<noteq> []" for r
    by (simp add: demo_detokenize_request_def)
  have reach: "persistenceClient demo_system_uncached" "persistenceClient demo_system_tok"
    by code_simp+
  have io: "\<not> rpc_retrievePII_fails demo_env_later" "\<not> db_select_fails demo_env_later"
    by (simp_all add: demo_env_later_def demo_env_def)
  have nc: "\<not> redisClient demo_system_uncached" "\<not> redisClient demo_system_tok"
    by (simp_all add: demo_system_uncached_def demo_system_tok_def)
  have times: "\<not> 1700086400 * Second < now_db demo_env_later"
    "\<not> 1700086400 * Second < now_check demo_env_later"
    by (simp_all add: demo_env_later_def demo_env_def Second_def)
  have f: "dq_OrganizationId (demo_detokenize_request\<lparr>dq_ReferenceHash := r\<rparr>) = ''acme''"
    "dq_OrganizationKey (demo_detokenize_request\<lparr>dq_ReferenceHash := r\<rparr>) = ''s3cret''"
    "dq_ReferenceHash (demo_detokenize_request\<lparr>dq_ReferenceHash := r\<rparr>) = r" for r
    by (simp_all add: demo_detokenize_request_def)
  note T = Detokenize_strips_tok_prefix [OF valid key _ io(1) refl, THEN conjunct2, THEN conjunct1,
      THEN mp, OF _ _ conjI, OF _ _ _ io(2), of _ _ demo_crypto, unfolded f]
  have a: "snd (Detokenize demo_crypto demo_env_later demo_system_uncached
      (demo_detokenize_request\<lparr>dq_ReferenceHash := ''tok_30313233343536373839616263646566''\<rparr>)) =
     \<lparr>dr_Data = ''user@example.com'', dr_DataType = ''email'',
      dr_OriginalTimestamp = Some (1700000000 * Second), dr_AccessLogged = True,
      dr_Status = ''success'', dr_ErrorMessage = []\<rparr>"
    using T [OF _ reach(1) nc(1), of "''tok_30313233343536373839616263646566''"]
      demo_uncached_row times
    by simp
  have b: "snd (Detokenize demo_crypto demo_env_later demo_system_uncached
      (demo_detokenize_request\<lparr>dq_ReferenceHash := ''30313233343536373839616263646566''\<rparr>)) =
     \<lparr>dr_Data = ''user@example.com'', dr_DataType = ''email'',
      dr_OriginalTimestamp = Some (1700000000 * Second), dr_AccessLogged = True,
      dr_Status = ''success'', dr_ErrorMessage = []\<rparr>"
    using T [OF _ reach(1) nc(1), of "''30313233343536373839616263646566''"]
      demo_uncached_row times
    by simp
  have c: "snd (Detokenize demo_crypto demo_env_later demo_system_uncached
      (demo_detokenize_request\<lparr>dq_ReferenceHash := ''tok_''\<rparr>)) =
     detokenizeError ''token not found''"
    using T [OF _ reach(1) nc(1), of "''tok_''"] demo_uncached_row
    by simp
  have d: "snd (Detokenize demo_crypto demo_env_later demo_system_tok
      (demo_detokenize_request\<lparr>dq_ReferenceHash := ''tok_''\<rparr>)) =
     \<lparr>dr_Data = ''user@example.com'', dr_DataType = ''email'',
      dr_OriginalTimestamp = Some (1700000000 * Second), dr_AccessLogged = True,
      dr_Status = ''success'', dr_ErrorMessage = []\<rparr>"
    using T [OF _ reach(2) nc(2), of "''tok_''"] demo_uncached_row times
    by simp
  have e: "snd (Detokenize demo_crypto demo_env_later demo_system_tok
      (demo_detokenize_request\<lparr>dq_ReferenceHash := ''30313233343536373839616263646566''\<rparr>)) =
     detokenizeError ''token not found''"
    by code_simp
  from a b c d e show ?thesis by (intro conjI)
qed


section \<open>Retention\<close>

text \<open>
  Claim C6, as the code has it. The retention policy maps to a duration as 1day to
  24 h, 7days to 168 h, 30days to 720 h, 1year to 8760 h and 7years to 61320 h; every
  other value, the empty one included, maps to 24 h. The expiry of a successful
  \<^verbatim>\<open>Tokenize\<close>, in its response and in the record it queues for the store, is the clock
  reading taken for the expiry plus that duration. The creation time of the record is
  a second clock reading, taken after the encryption: the expiry is the creation time
  plus the duration exactly when the two readings are the same. When the queue is
  unavailable, nothing is queued.
\<close>

theorem retention_policy_expiry:
  "getRetentionDuration ''1day'' = 24 * Hour
   \<and> getRetentionDuration ''7days'' = 168 * Hour
   \<and> getRetentionDuration ''30days'' = 720 * Hour
   \<and> getRetentionDuration ''1year'' = 8760 * Hour
   \<and> getRetentionDuration ''7years'' = 61320 * Hour
   \<and> getRetentionDuration [] = 24 * Hour
   \<and> (policy \<notin> {''1day'', ''7days'', ''30days'', ''1year'', ''7years''} \<longrightarrow>
        getRetentionDuration policy = 24 * Hour)
   \<and> (Tokenize c e s req = (s', resp) \<and> tr_Status resp = ''success'' \<longrightarrow>
        tr_ExpiresAt resp =
          Some (now_expiry e + getRetentionDuration (tq_RetentionPolicy req)) \<and>
        (pgmqDB s \<and> \<not> pgmq_send_fails e \<longrightarrow>
           (\<exists>r. queue s' = queue s @ [\<lparr>msg_id = next_msg_id s, vt = now_pgmq e,
                                        message = Encoded r\<rparr>] \<and>
                sp_ExpiresAt r =
                  (if IsZero (now_expiry e + getRetentionDuration (tq_RetentionPolicy req))
                   then None
                   else Some (now_expiry e + getRetentionDuration (tq_RetentionPolicy req))) \<and>
                sp_CreatedAt r =
                  (if IsZero (now_created e) then None else Some (now_created e)) \<and>
                (\<forall>x y. sp_ExpiresAt r = Some x \<and> sp_CreatedAt r = Some y \<longrightarrow>
                   (x = y + getRetentionDuration (tq_RetentionPolicy req)) =
                   (now_created e = now_expiry e)))) \<and>
        (\<not> (pgmqDB s \<and> \<not> pgmq_send_fails e) \<longrightarrow> queue s' = queue s))"
proof -
  have tok: "tr_ExpiresAt resp =
          Some (now_expiry e + getRetentionDuration (tq_RetentionPolicy req)) \<and>
        (pgmqDB s \<and> \<not> pgmq_send_fails e \<longrightarrow>
           (\<exists>r. queue s' = queue s @ [\<lparr>msg_id = next_msg_id s, vt = now_pgmq e,
                                        message = Encoded r\<rparr>] \<and>
                sp_ExpiresAt r =
                  (if IsZero (now_expiry e + getRetentionDuration (tq_RetentionPolicy req))
                   then None
                   else Some (now_expiry e + getRetentionDuration (tq_RetentionPolicy req))) \<and>
                sp_CreatedAt r =
                  (if IsZero (now_created e) then None else Some (now_created e)) \<and>
                (\<forall>x y. sp_ExpiresAt r = Some x \<and> sp_CreatedAt r = Some y \<longrightarrow>
                   (x = y + getRetentionDuration (tq_RetentionPolicy req)) =
                   (now_created e = now_expiry e)))) \<and>
        (\<not> (pgmqDB s \<and> \<not> pgmq_send_fails e) \<longrightarrow> queue s' = queue s)"
    if h: "Tokenize c e s req = (s', resp)" "tr_Status resp = ''success''"
  proof -
    from Tokenize_success [OF h] obtain bs s1 ct iv where
      enc: "encryptPIIWithEnvelope c e s (tq_Data req) (tq_OrganizationId req)
             (tq_OrganizationKey req) = (s1, Inr (ct, iv))"
      and s': "s' = fst (queueForPersistence e s1
                  \<lparr>rec_ReferenceHash = EncodeToString bs,
                   rec_EncryptedData = ct,
                   rec_IV = iv,
                   rec_DataType = tq_DataType req,
                   rec_ClientID = tq_ClientId req,
                   rec_OrganizationID = tq_OrganizationId req,
                   rec_CreatedAt = now_created e,
                   rec_ExpiresAt = now_expiry e + getRetentionDuration (tq_RetentionPolicy req),
                   rec_Metadata = tq_Metadata req\<rparr>)"
      and resp: "tr_ExpiresAt resp =
          Some (now_expiry e + getRetentionDuration (tq_RetentionPolicy req))"
      by auto
    from encryptPIIWithEnvelope_frame [OF enc] have q: "queue s1 = queue s"
      "next_msg_id s1 = next_msg_id s" "pgmqDB s1 = pgmqDB s"
      by (simp_all add: same_pipeline_def)
    show ?thesis
      using resp q unfolding s'
      by (auto simp: queueForPersistence_def Let_def)
  qed
  show ?thesis
    using tok getRetentionDuration_table getRetentionDuration_default [of policy]
    by (simp add: getRetentionDuration_def)
qed

lemma demo_Tokenize_success:
  "tr_Status (snd (Tokenize demo_crypto demo_env demo_system demo_request)) = ''success''"
  by code_simp

lemma demo_Tokenize_queue:
  "queue (fst (Tokenize demo_crypto demo_env demo_system demo_request)) =
     [\<lparr>msg_id = 1, vt = 1700000000 * Second,
       message = Encoded
         \<lparr>sp_ReferenceHash = ''30313233343536373839616263646566'',
          sp_EncryptedData = ''user@example.comdata-nonce-1s3cr'',
          sp_Iv = ''data-nonce-1'',
          sp_DataType = ''email'',
          sp_ClientId = ''c1'',
          sp_OrganizationId = ''acme'',
          sp_Metadata = [],
          sp_CreatedAt = Some (1700000000 * Second),
          sp_ExpiresAt = Some (1700086400 * Second)\<rparr>\<rparr>]"
  by code_simp

theorem retention_policy_expiry_witness:
  "tr_Status (snd (Tokenize demo_crypto demo_env demo_system demo_request)) = ''success''
   \<and> tr_ExpiresAt (snd (Tokenize demo_crypto demo_env demo_system demo_request)) =
       Some (1700000000 * Second + 24 * Hour)
   \<and> (\<exists>r. queue (fst (Tokenize demo_crypto demo_env demo_system demo_request)) =
             [\<lparr>msg_id = 1, vt = 1700000000 * Second, message = Encoded r\<rparr>] \<and>
           sp_ExpiresAt r = Some (1700000000 * Second + 24 * Hour) \<and>
           sp_CreatedAt r = Some (1700000000 * Second))
   \<and> getRetentionDuration ''forever'' = 24 * Hour"
proof -
  have z: "\<not> IsZero (1700000000 * Second + 24 * Hour)" "\<not> IsZero (1700000000 * Second)"
    by (simp_all add: IsZero_def zeroTime_def Second_def Hour_def)
  have env: "now_expiry demo_env = 1700000000 * Second" "now_created demo_env = 1700000000 * Second"
    "now_pgmq demo_env = 1700000000 * Second" "\<not> pgmq_send_fails demo_env"
    by (simp_all add: demo_env_def)
  have sys: "pgmqDB demo_system" "queue demo_system = []" "next_msg_id demo_system = 1"
    by (simp_all add: demo_system_def)
  have d: "getRetentionDuration (tq_RetentionPolicy demo_request) = 24 * Hour"
    by (simp add: demo_request_def getRetentionDuration_def)
  note T = retention_policy_expiry [of "''forever''" demo_crypto demo_env demo_system demo_request
      "fst (Tokenize demo_crypto demo_env demo_system demo_request)"
      "snd (Tokenize demo_crypto demo_env demo_system demo_request)"]
  have a: "tr_ExpiresAt (snd (Tokenize demo_crypto demo_env demo_system demo_request)) =
       Some (1700000000 * Second + 24 * Hour)"
    using T demo_Tokenize_success by (simp add: env d)
  have b: "\<exists>r. queue (fst (Tokenize demo_crypto demo_env demo_system demo_request)) =
             [\<lparr>msg_id = 1, vt = 1700000000 * Second, message = Encoded r\<rparr>] \<and>
           sp_ExpiresAt r = Some (1700000000 * Second + 24 * Hour) \<and>
           sp_CreatedAt r = Some (1700000000 * Second)"
    using T demo_Tokenize_success z by (auto simp: env sys d)
  have c: "getRetentionDuration ''forever'' = 24 * Hour"
    using T by simp
  show ?thesis
    by (intro conjI) (rule demo_Tokenize_success, rule a, rule b, rule c)
qed

text \<open>
  The claim as stated (the expiry of the record is its creation time plus the
  duration) fails. \<^verbatim>\<open>Tokenize\<close> reads the clock once for the expiry, before it
  encrypts, and once more for the creation time of the record, after it. When the
  clock has advanced by five seconds in between, the queued record is created at
  1700000005 s and, under the policy \<^verbatim>\<open>1day\<close>, expires at 1700086400 s, which is not
  24 hours later.
\<close>

theorem retention_created_at_counterexample:
  "tr_Status (snd (Tokenize demo_crypto demo_env_slow demo_system demo_request)) = ''success''
   \<and> tq_RetentionPolicy demo_request = ''1day''
   \<and> getRetentionDuration ''1day'' = 86400 * Second
   \<and> queue (fst (Tokenize demo_crypto demo_env_slow demo_system demo_request)) =
       [\<lparr>msg_id = 1, vt = 1700000000 * Second,
         message = Encoded
           \<lparr>sp_ReferenceHash = ''30313233343536373839616263646566'',
            sp_EncryptedData = ''user@example.comdata-nonce-1s3cr'',
            sp_Iv = ''data-nonce-1'',
            sp_DataType = ''email'',
            sp_ClientId = ''c1'',
            sp_OrganizationId = ''acme'',
            sp_Metadata = [],
            sp_CreatedAt = Some (1700000005 * Second),
            sp_ExpiresAt = Some (1700086400 * Second)\<rparr>\<rparr>]
   \<and> 1700000005 * Second + 86400 * Second \<noteq> 1700086400 * Second"
  by code_simp


section \<open>Storing a TEK\<close>

lemma upsert_tek_ids:
  "map t_organization_id (upsert_tek tek now tbl) =
     (if tek_OrganizationID tek \<in> set (map t_organization_id tbl)
      then map t_organization_id tbl
      else map t_organization_id tbl @ [tek_OrganizationID tek])"
  by (induction tbl) auto

lemma upsert_tek_others:
  "filter (\<lambda>r. t_organization_id r \<noteq> tek_OrganizationID tek) (upsert_tek tek now tbl) =
   filter (\<lambda>r. t_organization_id r \<noteq> tek_OrganizationID tek) tbl"
  by (induction tbl) auto

lemma filter_absent: "k \<notin> set (map f xs) \<Longrightarrow> filter (\<lambda>r. f r = k) xs = []"
  by (induction xs) auto

lemma upsert_tek_row:
  "distinct (map t_organization_id tbl) \<Longrightarrow>
   filter (\<lambda>r. t_organization_id r = tek_OrganizationID tek) (upsert_tek tek now tbl) =
     [case find (\<lambda>r. t_organization_id r = tek_OrganizationID tek) tbl of
        None \<Rightarrow> tek_inserted tek
      | Some r \<Rightarrow> tek_replaced tek now r]"
proof (induction tbl)
  case Nil
  then show ?case by (simp add: tek_inserted_def)
next
  case (Cons r rs)
  show ?case
  proof (cases "t_organization_id r = tek_OrganizationID tek")
    case True
    with Cons.prems have "tek_OrganizationID tek \<notin> set (map t_organization_id rs)" by auto
    then have "filter (\<lambda>r. t_organization_id r = tek_OrganizationID tek) rs = []"
      by (rule filter_absent)
    with True show ?thesis by (simp add: tek_replaced_def)
  next
    case False
    with Cons show ?thesis by simp
  qed
qed

lemma StoreTEK_record [simp]:
  "\<lparr>tek_OrganizationID = tek_OrganizationID tek,
    tek_EncryptedTEK = tek_EncryptedTEK tek,
    tek_OrgKeyHash = tek_OrgKeyHash tek,
    tek_CreatedAt = tek_CreatedAt tek,
    tek_RotatedAt = tek_RotatedAt tek,
    tek_Version = tek_Version tek\<rparr> = (tek :: OrganizationTEK)"
  by (cases tek) simp

text \<open>
  Claim C5, as the code has it. \<^verbatim>\<open>StoreTEK\<close> is an upsert that replaces: for an
  organization that already has a row, the wrapped TEK and the key hash of the row are
  overwritten, \<^verbatim>\<open>rotated_at\<close> is set, the version is incremented and the creation time
  is kept; for an organization without a row, a new active row is inserted. The table
  keeps one row per organization, and the rows of the other organizations are
  untouched.
\<close>

theorem StoreTEK_replaces_row:
  assumes "\<not> db_saveTEK_fails e"
    and "distinct (map t_organization_id (organization_teks s))"
  shows "snd (StoreTEK e s tek) = None
    \<and> distinct (map t_organization_id (organization_teks (fst (StoreTEK e s tek))))
    \<and> filter (\<lambda>r. t_organization_id r = tek_OrganizationID tek)
         (organization_teks (fst (StoreTEK e s tek))) =
       [case find (\<lambda>r. t_organization_id r = tek_OrganizationID tek) (organization_teks s) of
          None \<Rightarrow> tek_inserted tek
        | Some r \<Rightarrow> tek_replaced tek (now_db e) r]
    \<and> filter (\<lambda>r. t_organization_id r \<noteq> tek_OrganizationID tek)
         (organization_teks (fst (StoreTEK e s tek))) =
       filter (\<lambda>r. t_organization_id r \<noteq> tek_OrganizationID tek) (organization_teks s)"
proof -
  have st: "StoreTEK e s tek =
      (s\<lparr>organization_teks := upsert_tek tek (now_db e) (organization_teks s)\<rparr>, None)"
    using assms(1) by (simp add: StoreTEK_def saveTEKToDatabase_def)
  have d: "distinct (map t_organization_id (upsert_tek tek (now_db e) (organization_teks s)))"
    using assms(2) by (simp add: upsert_tek_ids)
  show ?thesis
    using d upsert_tek_row [OF assms(2), of tek "now_db e"]
      upsert_tek_others [of tek "now_db e" "organization_teks s"]
    by (simp add: st)
qed

theorem StoreTEK_replaces_row_witness:
  "organization_teks (fst (StoreTEK demo_env demo_system demo_tek_first)) =
     [tek_inserted demo_tek_first]
   \<and> filter (\<lambda>r. t_organization_id r = ''acme'')
       (organization_teks
          (fst (StoreTEK demo_env (fst (StoreTEK demo_env demo_system demo_tek_first))
                  demo_tek_second))) =
     [tek_replaced demo_tek_second (1700000000 * Second) (tek_inserted demo_tek_first)]"
proof -
  have e: "\<not> db_saveTEK_fails demo_env" by (simp add: demo_env_def)
  have d0: "distinct (map t_organization_id (organization_teks demo_system))"
    by (simp add: demo_system_def)
  have s1: "organization_teks (fst (StoreTEK demo_env demo_system demo_tek_first)) =
     [tek_inserted demo_tek_first]"
    by (simp add: StoreTEK_def saveTEKToDatabase_def demo_env_def demo_system_def
        tek_inserted_def)
  have d1: "distinct (map t_organization_id
      (organization_teks (fst (StoreTEK demo_env demo_system demo_tek_first))))"
    by (simp add: s1)
  have a: "tek_OrganizationID demo_tek_second = ''acme''"
    by (simp add: demo_tek_second_def)
  have b: "t_organization_id (tek_inserted demo_tek_first) = ''acme''"
    by (simp add: demo_tek_first_def tek_inserted_def)
  show ?thesis
    using StoreTEK_replaces_row [OF e d1, of demo_tek_second] s1 a b
    by (simp add: demo_env_def)
qed

text \<open>
  The claim as stated (\<^verbatim>\<open>ON CONFLICT DO NOTHING\<close>, an existing record is never replaced)
  fails: a second \<^verbatim>\<open>StoreTEK\<close> for the same organization replaces the stored TEK.
\<close>

theorem StoreTEK_do_nothing_counterexample:
  "organization_teks (fst (StoreTEK demo_env demo_system demo_tek_first)) =
     [\<lparr>t_organization_id = ''acme'', t_encrypted_tek = ''first-wrapped-tek'',
       t_org_key_hash = ''first-hash'', t_created_at = 1600000000 * Second,
       t_rotated_at = None, t_version = 1, t_is_active = True\<rparr>]
   \<and> organization_teks
        (fst (StoreTEK demo_env (fst (StoreTEK demo_env demo_system demo_tek_first))
                demo_tek_second)) =
     [\<lparr>t_organization_id = ''acme'', t_encrypted_tek = ''second-wrapped-tek'',
       t_org_key_hash = ''second-hash'', t_created_at = 1600000000 * Second,
       t_rotated_at = Some (1700000000 * Second), t_version = 2, t_is_active = True\<rparr>]
   \<and> organization_teks
        (fst (StoreTEK demo_env (fst (StoreTEK demo_env demo_system demo_tek_first))
                demo_tek_second)) \<noteq>
     organization_teks (fst (StoreTEK demo_env demo_system demo_tek_first))"
  by (simp add: StoreTEK_def saveTEKToDatabase_def demo_env_def demo_system_def
      demo_tek_first_def demo_tek_second_def)


section \<open>Replaying a store message\<close>

lemma upsert_pii_refs:
  "map p_reference_hash (upsert_pii req x m now tbl) =
     (if sp_ReferenceHash req \<in> set (map p_reference_hash tbl)
      then map p_reference_hash tbl
      else map p_reference_hash tbl @ [sp_ReferenceHash req])"
  by (induction tbl) auto

lemma upsert_pii_stored: "stored req x m (upsert_pii req x m now tbl)"
  by (induction tbl) (auto simp: stored_def)

lemma upsert_pii_again:
  "stored req x m tbl \<Longrightarrow>
   map row_contents (upsert_pii req x m now tbl) = map row_contents tbl"
  by (induction tbl) (auto simp: stored_def row_contents_def)

lemma storePIIToken_table:
  "pii_tokens (fst (storePIIToken e s req)) =
     (case exec_upsert_pii e (pii_tokens s) req (sp_ExpiresAt req)
             (if length (sp_Metadata req) > 0 then sp_Metadata req else []) of
        None \<Rightarrow> pii_tokens s
      | Some tbl \<Rightarrow> tbl)"
  by (auto simp: storePIIToken_def cacheToken_def Let_def split: option.splits)

lemma storePIIToken_stored:
  assumes "sp_ExpiresAt req = Some x"
    and "stored req x (if length (sp_Metadata req) > 0 then sp_Metadata req else []) (pii_tokens s)"
  shows "stored req x (if length (sp_Metadata req) > 0 then sp_Metadata req else [])
           (pii_tokens (fst (storePIIToken e s req)))"
proof (cases "exec_upsert_pii e (pii_tokens s) req (sp_ExpiresAt req)
             (if length (sp_Metadata req) > 0 then sp_Metadata req else [])")
  case None
  then show ?thesis using assms(2) by (simp add: storePIIToken_table)
next
  case (Some tbl)
  then have "tbl = upsert_pii req x (if length (sp_Metadata req) > 0 then sp_Metadata req else [])
      (now_db e) (pii_tokens s)"
    using assms(1) by (auto simp: exec_upsert_pii_def split: if_splits)
  then show ?thesis using Some by (simp add: storePIIToken_table upsert_pii_stored)
qed

lemma storePIIToken_ok:
  assumes "storePIIToken e s req = (s1, None)"
  shows "\<exists>x. sp_ExpiresAt req = Some x \<and> \<not> db_upsert_fails e \<and> validTypes (sp_DataType req) \<and>
           pii_tokens s1 = upsert_pii req x
             (if length (sp_Metadata req) > 0 then sp_Metadata req else []) (now_db e) (pii_tokens s)"
  using assms
  by (auto simp: storePIIToken_def exec_upsert_pii_def cacheToken_def Let_def
      split: option.splits if_splits)

lemma storePIIToken_replay:
  assumes "sp_ExpiresAt req = Some x"
    and "stored req x (if length (sp_Metadata req) > 0 then sp_Metadata req else []) (pii_tokens s)"
  shows "map row_contents (pii_tokens (fst (storePIIToken e s req))) =
         map row_contents (pii_tokens s)"
  using assms
  by (auto simp: storePIIToken_table exec_upsert_pii_def upsert_pii_again split: option.splits)

lemma replays_keep_contents:
  assumes "sp_ExpiresAt req = Some x"
    and "stored req x (if length (sp_Metadata req) > 0 then sp_Metadata req else []) (pii_tokens s)"
  shows "map row_contents (pii_tokens (fold (\<lambda>e s'. fst (storePIIToken e s' req)) es s)) =
         map row_contents (pii_tokens s)"
  using assms(2)
proof (induction es arbitrary: s)
  case Nil
  then show ?case by simp
next
  case (Cons e es)
  let ?s1 = "fst (storePIIToken e s req)"
  have c: "map row_contents (pii_tokens ?s1) = map row_contents (pii_tokens s)"
    using storePIIToken_replay [OF assms(1) Cons.prems] .
  have "stored req x (if length (sp_Metadata req) > 0 then sp_Metadata req else [])
      (pii_tokens ?s1)"
    by (rule storePIIToken_stored [OF assms(1) Cons.prems])
  from Cons.IH [OF this] c show ?case by simp
qed

lemma one_row:
  "distinct (map f xs) \<Longrightarrow> k \<in> set (map f xs) \<Longrightarrow> length (filter (\<lambda>r. f r = k) xs) = 1"
proof (induction xs)
  case Nil
  then show ?case by simp
next
  case (Cons a xs)
  show ?case
  proof (cases "f a = k")
    case True
    with Cons.prems have "k \<notin> set (map f xs)" by auto
    then have "filter (\<lambda>r. f r = k) xs = []" by (induction xs) auto
    with True show ?thesis by simp
  next
    case False
    with Cons show ?thesis by auto
  qed
qed

lemma refs_of_contents:
  assumes "map row_contents tbl' = map row_contents tbl"
  shows "map p_reference_hash tbl' = map p_reference_hash tbl"
proof -
  have f: "p_reference_hash = fst \<circ> row_contents"
    by (auto simp: row_contents_def fun_eq_iff)
  have "map p_reference_hash tbl' = map fst (map row_contents tbl')"
    by (simp add: f)
  also have "\<dots> = map fst (map row_contents tbl)"
    by (simp only: assms)
  also have "\<dots> = map p_reference_hash tbl"
    by (simp add: f)
  finally show ?thesis .
qed

text \<open>
  Claim C8. Once \<^verbatim>\<open>storePIIToken\<close> has succeeded for a request, applying it again to
  the same request any number of times, whether these applications succeed or fail,
  changes no column other than \<^verbatim>\<open>updated_at\<close> in any row: ciphertext, nonce, data
  type, client, organization, expiry and metadata stay as after the first application,
  and the table holds exactly one row with the request's reference hash.
\<close>

theorem storePIIToken_idempotent:
  assumes "distinct (map p_reference_hash (pii_tokens s))"
    and "storePIIToken e s req = (s1, None)"
  shows "map row_contents (pii_tokens (fold (\<lambda>e' s'. fst (storePIIToken e' s' req)) es s1)) =
           map row_contents (pii_tokens s1)
    \<and> length (filter (\<lambda>r. p_reference_hash r = sp_ReferenceHash req)
         (pii_tokens (fold (\<lambda>e' s'. fst (storePIIToken e' s' req)) es s1))) = 1"
proof -
  let ?m = "if length (sp_Metadata req) > 0 then sp_Metadata req else []"
  from storePIIToken_ok [OF assms(2)] obtain x where
    x: "sp_ExpiresAt req = Some x"
    and t1: "pii_tokens s1 = upsert_pii req x ?m (now_db e) (pii_tokens s)"
    by auto
  have st: "stored req x ?m (pii_tokens s1)"
    unfolding t1 by (rule upsert_pii_stored)
  have c: "map row_contents (pii_tokens (fold (\<lambda>e' s'. fst (storePIIToken e' s' req)) es s1)) =
           map row_contents (pii_tokens s1)"
    using replays_keep_contents [OF x st] .
  have d1: "distinct (map p_reference_hash (pii_tokens s1))"
    and m1: "sp_ReferenceHash req \<in> set (map p_reference_hash (pii_tokens s1))"
    using assms(1) unfolding t1 by (auto simp: upsert_pii_refs)
  have r: "map p_reference_hash (pii_tokens (fold (\<lambda>e' s'. fst (storePIIToken e' s' req)) es s1))
         = map p_reference_hash (pii_tokens s1)"
    using refs_of_contents [OF c] .
  have "length (filter (\<lambda>r. p_reference_hash r = sp_ReferenceHash req)
         (pii_tokens (fold (\<lambda>e' s'. fst (storePIIToken e' s' req)) es s1))) = 1"
    by (rule one_row) (simp_all only: r d1 m1)
  with c show ?thesis by simp
qed

lemma demo_store_ok: "snd (storePIIToken demo_env demo_system demo_store_request) = None"
  by code_simp

theorem storePIIToken_idempotent_witness:
  "map row_contents (pii_tokens
      (fold (\<lambda>e' s'. fst (storePIIToken e' s' demo_store_request))
         [demo_env\<lparr>now_db := 1700000300 * Second\<rparr>, demo_env\<lparr>now_db := 1700000600 * Second\<rparr>]
         (fst (storePIIToken demo_env demo_system demo_store_request)))) =
   [(''30313233343536373839616263646566'', ''user@example.comdata-nonce-1s3cr'',
     ''data-nonce-1'', ''email'', ''c1'', ''acme'', 1700086400 * Second, [],
     1700000000 * Second)]"
proof -
  have d: "distinct (map p_reference_hash (pii_tokens demo_system))"
    by (simp add: demo_system_def)
  have s: "storePIIToken demo_env demo_system demo_store_request =
      (fst (storePIIToken demo_env demo_system demo_store_request), None)"
    using demo_store_ok by (simp add: prod_eq_iff)
  have f: "map row_contents (pii_tokens (fst (storePIIToken demo_env demo_system demo_store_request)))
     = [(''30313233343536373839616263646566'', ''user@example.comdata-nonce-1s3cr'',
     ''data-nonce-1'', ''email'', ''c1'', ''acme'', 1700086400 * Second, [],
     1700000000 * Second)]"
    by code_simp
  have "map row_contents (pii_tokens
      (fold (\<lambda>e' s'. fst (storePIIToken e' s' demo_store_request))
         [demo_env\<lparr>now_db := 1700000300 * Second\<rparr>, demo_env\<lparr>now_db := 1700000600 * Second\<rparr>]
         (fst (storePIIToken demo_env demo_system demo_store_request)))) =
      map row_contents (pii_tokens (fst (storePIIToken demo_env demo_system demo_store_request)))"
    using storePIIToken_idempotent [OF d s] by (rule conjunct1)
  also note f
  finally show ?thesis .
qed

section \<open>The persistence worker\<close>

lemma pgmq_read_props:
  "pgmq_read now v n q = (rows, q') \<Longrightarrow>
     set rows \<subseteq> set q' \<and> map msg_id q' = map msg_id q \<and>
     (\<forall>m \<in> set rows. vt m = now + v * Second)"
proof (induction q arbitrary: n rows q')
  case Nil
  then show ?case by simp
next
  case (Cons m ms)
  show ?case
  proof (cases "n = 0")
    case True
    with Cons.prems show ?thesis by simp
  next
    case n: False
    show ?thesis
    proof (cases "vt m \<le> now")
      case True
      obtain rows1 q1 where r: "pgmq_read now v (n - 1) ms = (rows1, q1)" by fastforce
      from Cons.IH [OF r] Cons.prems n True r show ?thesis by auto
    next
      case False
      obtain rows1 q1 where r: "pgmq_read now v n ms = (rows1, q1)" by fastforce
      from Cons.IH [OF r] Cons.prems n False r show ?thesis by auto
    qed
  qed
qed

lemma storePIIToken_queue: "queue (fst (storePIIToken e s req)) = queue s"
  by (auto simp: storePIIToken_def cacheToken_def Let_def split: option.splits)

lemma storePIIToken_result:
  "snd (storePIIToken e s req) = (if upsert_rejected e req then Some ErrInsertToken else None)"
  by (auto simp: storePIIToken_def exec_upsert_pii_def upsert_rejected_def Let_def
      split: option.splits)

lemma processMessage_queue:
  "queue (processMessage e s row) =
     (if deletes e row then filter (\<lambda>m. msg_id m \<noteq> msg_id row) (queue s) else queue s)"
proof (cases "scan_fails e")
  case True
  then show ?thesis by (simp add: processMessage_def deletes_def)
next
  case scan: False
  show ?thesis
  proof (cases "json_Unmarshal (message row)")
    case None
    with scan show ?thesis
      by (simp add: processMessage_def deletes_def deleteMessage_def)
  next
    case (Some req)
    obtain s1 r where st: "storePIIToken e s req = (s1, r)" by fastforce
    have q: "queue s1 = queue s" using storePIIToken_queue [of e s req] st by simp
    have r: "r = (if upsert_rejected e req then Some ErrInsertToken else None)"
      using storePIIToken_result [of e s req] st by simp
    show ?thesis
      using scan Some st q r
      by (simp add: processMessage_def deletes_def deleteMessage_def)
  qed
qed


lemma upsert_pii_ref_set:
  "p_reference_hash ` set (upsert_pii req x m now tbl) =
     insert (sp_ReferenceHash req) (p_reference_hash ` set tbl)"
  by (induction tbl) auto

lemma storePIIToken_refs:
  "set (map p_reference_hash (pii_tokens s)) \<subseteq>
     set (map p_reference_hash (pii_tokens (fst (storePIIToken e s req))))"
  by (auto simp: storePIIToken_table exec_upsert_pii_def upsert_pii_ref_set
      split: option.splits if_splits)

lemma storePIIToken_ref_stored:
  "\<not> upsert_rejected e req \<Longrightarrow>
   sp_ReferenceHash req \<in> set (map p_reference_hash (pii_tokens (fst (storePIIToken e s req))))"
  by (auto simp: storePIIToken_table exec_upsert_pii_def upsert_pii_ref_set upsert_rejected_def
      split: option.splits if_splits)

lemma deleteMessage_tokens: "pii_tokens (fst (deleteMessage e s i)) = pii_tokens s"
  by (simp add: deleteMessage_def)

lemma processMessage_refs:
  "set (map p_reference_hash (pii_tokens s)) \<subseteq>
     set (map p_reference_hash (pii_tokens (processMessage e s row)))"
proof (cases "json_Unmarshal (message row)")
  case None
  then show ?thesis by (simp add: processMessage_def deleteMessage_tokens)
next
  case (Some req)
  obtain s1 r where st: "storePIIToken e s req = (s1, r)" by fastforce
  have "set (map p_reference_hash (pii_tokens s)) \<subseteq> set (map p_reference_hash (pii_tokens s1))"
    using storePIIToken_refs [of s e req] st by simp
  then show ?thesis
    using Some st by (cases r) (simp_all add: processMessage_def deleteMessage_tokens)
qed

lemma processMessage_ref_stored:
  assumes "json_Unmarshal (message row) = Some req" and "deletes e row"
  shows "sp_ReferenceHash req \<in> set (map p_reference_hash (pii_tokens (processMessage e s row)))"
proof -
  from assms have nr: "\<not> upsert_rejected e req" and sc: "\<not> scan_fails e"
    by (simp_all add: deletes_def)
  obtain s1 r where st: "storePIIToken e s req = (s1, r)" by fastforce
  have "sp_ReferenceHash req \<in> set (map p_reference_hash (pii_tokens s1))"
    using storePIIToken_ref_stored [OF nr, of s] st by simp
  then show ?thesis
    using assms(1) sc st by (cases r) (simp_all add: processMessage_def deleteMessage_tokens)
qed

lemma fold_queue:
  "queue (fold (\<lambda>row s'. processMessage (f (msg_id row)) s' row) rows s) =
     filter (\<lambda>m. \<forall>r \<in> set rows. deletes (f (msg_id r)) r \<longrightarrow> msg_id m \<noteq> msg_id r) (queue s)"
proof (induction rows arbitrary: s)
  case Nil
  then show ?case by simp
next
  case (Cons r rs)
  show ?case
    by (simp add: Cons.IH processMessage_queue)
qed

lemma fold_refs:
  "set (map p_reference_hash (pii_tokens s)) \<subseteq>
     set (map p_reference_hash
       (pii_tokens (fold (\<lambda>row s'. processMessage (f (msg_id row)) s' row) rows s)))"
proof (induction rows arbitrary: s)
  case Nil
  then show ?case by simp
next
  case (Cons r rs)
  have "set (map p_reference_hash (pii_tokens s)) \<subseteq>
      set (map p_reference_hash (pii_tokens (processMessage (f (msg_id r)) s r)))"
    by (rule processMessage_refs)
  also have "\<dots> \<subseteq> set (map p_reference_hash
       (pii_tokens (fold (\<lambda>row s'. processMessage (f (msg_id row)) s' row) rs
          (processMessage (f (msg_id r)) s r))))"
    by (rule Cons.IH)
  finally show ?case by simp
qed

lemma fold_ref_stored:
  assumes "m \<in> set rows" and "json_Unmarshal (message m) = Some req"
    and "deletes (f (msg_id m)) m"
  shows "sp_ReferenceHash req \<in> set (map p_reference_hash
       (pii_tokens (fold (\<lambda>row s'. processMessage (f (msg_id row)) s' row) rows s)))"
  using assms(1)
proof (induction rows arbitrary: s)
  case Nil
  then show ?case by simp
next
  case (Cons r rs)
  show ?case
  proof (cases "m = r")
    case True
    have "sp_ReferenceHash req \<in>
        set (map p_reference_hash (pii_tokens (processMessage (f (msg_id r)) s r)))"
      using processMessage_ref_stored [OF assms(2) assms(3), of s] True by simp
    then show ?thesis
      using fold_refs [of "processMessage (f (msg_id r)) s r" f rs] by auto
  next
    case False
    with Cons.prems have "m \<in> set rs" by simp
    from Cons.IH [OF this] show ?thesis by simp
  qed
qed

lemma same_id_same_msg:
  "distinct (map msg_id q) \<Longrightarrow> a \<in> set q \<Longrightarrow> b \<in> set q \<Longrightarrow> msg_id a = msg_id b \<Longrightarrow> a = b"
  by (meson distinct_map inj_onD)

lemma pgmq_read_all_visible:
  "length (filter (\<lambda>x. vt x \<le> now) q) \<le> n \<Longrightarrow>
   map msg_id (fst (pgmq_read now v n q)) = map msg_id (filter (\<lambda>x. vt x \<le> now) q)"
proof (induction q arbitrary: n)
  case Nil
  then show ?case by simp
next
  case (Cons m ms)
  show ?case
  proof (cases "vt m \<le> now")
    case True
    with Cons.prems have n: "n \<noteq> 0"
      and l: "length (filter (\<lambda>x. vt x \<le> now) ms) \<le> n - 1" by auto
    from Cons.IH [OF l] True n show ?thesis by (auto split: prod.splits)
  next
    case False
    with Cons.prems have l: "length (filter (\<lambda>x. vt x \<le> now) ms) \<le> n" by simp
    from Cons.IH [OF l] False Cons.prems show ?thesis by (auto split: prod.splits)
  qed
qed

lemma pgmq_read_only_visible:
  "i \<in> set (map msg_id (fst (pgmq_read now v n q))) \<Longrightarrow>
   \<exists>x \<in> set q. msg_id x = i \<and> vt x \<le> now"
proof (induction q arbitrary: n)
  case Nil
  then show ?case by simp
next
  case (Cons m ms)
  show ?case
  proof (cases "n = 0")
    case True
    with Cons.prems show ?thesis by simp
  next
    case n: False
    show ?thesis
    proof (cases "vt m \<le> now")
      case True
      with Cons.prems n have "i = msg_id m \<or> i \<in> set (map msg_id (fst (pgmq_read now v (n - 1) ms)))"
        by (auto split: prod.splits)
      with Cons.IH True show ?thesis by auto
    next
      case False
      with Cons.prems n have "i \<in> set (map msg_id (fst (pgmq_read now v n ms)))"
        by (auto split: prod.splits)
      with Cons.IH show ?thesis by auto
    qed
  qed
qed

text \<open>
  Claim C7. For every message that a run of \<^verbatim>\<open>processMessages\<close> reads and scans:
  it is hidden for 300 seconds from the time of the read; if it does not decode, it is
  deleted from the queue (when the delete call itself works); if its upsert fails, it
  stays in the queue, is not returned by a read before the visibility timeout has
  passed and is returned by a read after it (when at most ten messages are visible);
  and if it decodes and is gone from the queue after the run, then its upsert succeeded
  and the table holds a row with its reference hash.
\<close>

theorem worker_delete_policy:
  assumes "\<not> pgmq_read_fails we"
    and "distinct (map msg_id (queue s))"
    and "pgmq_read (read_time we) 300 10 (queue s) = (rows, q)"
    and "m \<in> set rows"
    and "\<not> scan_fails (msg_env we (msg_id m))"
  shows "vt m = read_time we + 300 * Second
    \<and> (json_Unmarshal (message m) = None \<and> \<not> pgmq_delete_fails (msg_env we (msg_id m)) \<longrightarrow>
         msg_id m \<notin> set (map msg_id (queue (processMessages we s))))
    \<and> (\<forall>req. json_Unmarshal (message m) = Some req \<and>
           upsert_rejected (msg_env we (msg_id m)) req \<longrightarrow>
           m \<in> set (queue (processMessages we s)) \<and>
           (\<forall>now'. now' < vt m \<longrightarrow>
              msg_id m \<notin> set (map msg_id (fst (pgmq_read now' 300 10 (queue (processMessages we s)))))) \<and>
           (\<forall>now'. vt m \<le> now' \<and>
              length (filter (\<lambda>x. vt x \<le> now') (queue (processMessages we s))) \<le> 10 \<longrightarrow>
              msg_id m \<in> set (map msg_id (fst (pgmq_read now' 300 10 (queue (processMessages we s)))))))
    \<and> (\<forall>req. json_Unmarshal (message m) = Some req \<and>
           msg_id m \<notin> set (map msg_id (queue (processMessages we s))) \<longrightarrow>
           \<not> upsert_rejected (msg_env we (msg_id m)) req \<and>
           sp_ReferenceHash req \<in> set (map p_reference_hash (pii_tokens (processMessages we s))))"
proof -
  let ?f = "msg_env we"
  let ?s' = "processMessages we s"
  from pgmq_read_props [OF assms(3)] have
    sub: "set rows \<subseteq> set q" and ids: "map msg_id q = map msg_id (queue s)"
    and vts: "\<forall>m \<in> set rows. vt m = read_time we + 300 * Second"
    by auto
  have dq: "distinct (map msg_id q)" using assms(2) ids by simp
  have mq: "m \<in> set q" using assms(4) sub by auto
  have pm: "?s' = fold (\<lambda>row s'. processMessage (?f (msg_id row)) s' row) rows (s\<lparr>queue := q\<rparr>)"
    using assms(1) assms(3) by (simp add: processMessages_def)
  have qs: "queue ?s' =
      filter (\<lambda>x. \<forall>r \<in> set rows. deletes (?f (msg_id r)) r \<longrightarrow> msg_id x \<noteq> msg_id r) q"
    unfolding pm by (simp add: fold_queue)
  have uniq: "r = m" if "r \<in> set rows" "msg_id r = msg_id m" for r
    using same_id_same_msg [OF dq _ mq] that sub by auto
  have gone: "msg_id m \<notin> set (map msg_id (queue ?s'))" if "deletes (?f (msg_id m)) m"
    using that assms(4) unfolding qs by auto
  have kept: "m \<in> set (queue ?s')" if "\<not> deletes (?f (msg_id m)) m"
    using that mq uniq unfolding qs by auto
  have a: "json_Unmarshal (message m) = None \<and> \<not> pgmq_delete_fails (?f (msg_id m)) \<longrightarrow>
         msg_id m \<notin> set (map msg_id (queue ?s'))"
    using gone assms(5) by (simp add: deletes_def)
  have ds: "distinct (map msg_id (queue ?s'))"
    unfolding qs using dq by (simp add: distinct_map_filter)
  have early: "msg_id m \<notin> set (map msg_id (fst (pgmq_read now' 300 10 (queue ?s'))))"
    if "m \<in> set (queue ?s')" "now' < vt m" for now'
  proof
    assume "msg_id m \<in> set (map msg_id (fst (pgmq_read now' 300 10 (queue ?s'))))"
    from pgmq_read_only_visible [OF this] obtain x where
      x: "x \<in> set (queue ?s')" "msg_id x = msg_id m" "vt x \<le> now'" by auto
    from same_id_same_msg [OF ds x(1) that(1) x(2)] x(3) that(2) show False by simp
  qed
  have late: "msg_id m \<in> set (map msg_id (fst (pgmq_read now' 300 10 (queue ?s'))))"
    if "m \<in> set (queue ?s')" "vt m \<le> now'"
      "length (filter (\<lambda>x. vt x \<le> now') (queue ?s')) \<le> 10" for now'
    using that by (simp only: pgmq_read_all_visible [OF that(3)]) auto
  have b: "\<forall>req. json_Unmarshal (message m) = Some req \<and> upsert_rejected (?f (msg_id m)) req \<longrightarrow>
           m \<in> set (queue ?s') \<and>
           (\<forall>now'. now' < vt m \<longrightarrow>
              msg_id m \<notin> set (map msg_id (fst (pgmq_read now' 300 10 (queue ?s'))))) \<and>
           (\<forall>now'. vt m \<le> now' \<and>
              length (filter (\<lambda>x. vt x \<le> now') (queue ?s')) \<le> 10 \<longrightarrow>
              msg_id m \<in> set (map msg_id (fst (pgmq_read now' 300 10 (queue ?s')))))"
  proof (intro allI impI)
    fix req
    assume "json_Unmarshal (message m) = Some req \<and> upsert_rejected (?f (msg_id m)) req"
    then have "\<not> deletes (?f (msg_id m)) m" by (simp add: deletes_def)
    then have k: "m \<in> set (queue ?s')" by (rule kept)
    show "m \<in> set (queue ?s') \<and>
           (\<forall>now'. now' < vt m \<longrightarrow>
              msg_id m \<notin> set (map msg_id (fst (pgmq_read now' 300 10 (queue ?s'))))) \<and>
           (\<forall>now'. vt m \<le> now' \<and>
              length (filter (\<lambda>x. vt x \<le> now') (queue ?s')) \<le> 10 \<longrightarrow>
              msg_id m \<in> set (map msg_id (fst (pgmq_read now' 300 10 (queue ?s')))))"
      using k early [OF k] late [OF k] by blast
  qed
  have c: "\<forall>req. json_Unmarshal (message m) = Some req \<and>
           msg_id m \<notin> set (map msg_id (queue ?s')) \<longrightarrow>
           \<not> upsert_rejected (?f (msg_id m)) req \<and>
           sp_ReferenceHash req \<in> set (map p_reference_hash (pii_tokens ?s'))"
  proof (intro allI impI)
    fix req
    assume h: "json_Unmarshal (message m) = Some req \<and>
           msg_id m \<notin> set (map msg_id (queue ?s'))"
    then have d: "deletes (?f (msg_id m)) m" using kept by force
    then have "\<not> upsert_rejected (?f (msg_id m)) req" using h by (simp add: deletes_def)
    moreover have "json_Unmarshal (message m) = Some req" using h by simp
    then have "sp_ReferenceHash req \<in> set (map p_reference_hash (pii_tokens ?s'))"
      unfolding pm using fold_ref_stored [of m rows req ?f] assms(4) d by simp
    ultimately show "\<not> upsert_rejected (?f (msg_id m)) req \<and>
           sp_ReferenceHash req \<in> set (map p_reference_hash (pii_tokens ?s'))" by simp
  qed
  from vts assms(4) a b c show ?thesis by blast
qed


lemma demo_read:
  "pgmq_read (1700000001 * Second) 300 10 demo_queue =
     (map (\<lambda>m. m\<lparr>vt := 1700000301 * Second\<rparr>) demo_queue,
      map (\<lambda>m. m\<lparr>vt := 1700000301 * Second\<rparr>) demo_queue)"
  by code_simp

lemma demo_worker_run:
  "map msg_id (queue (processMessages demo_worker_env (demo_system\<lparr>queue := demo_queue\<rparr>))) = [2]"
  "map p_reference_hash
     (pii_tokens (processMessages demo_worker_env (demo_system\<lparr>queue := demo_queue\<rparr>))) =
   [''30313233343536373839616263646566'']"
  by code_simp+

theorem worker_delete_policy_witness:
  "1 \<notin> set (map msg_id (queue (processMessages demo_worker_env (demo_system\<lparr>queue := demo_queue\<rparr>))))
   \<and> \<lparr>msg_id = 2, vt = 1700000301 * Second,
       message = Encoded (demo_store_request\<lparr>sp_ReferenceHash := ''aaaa''\<rparr>)\<rparr>
      \<in> set (queue (processMessages demo_worker_env (demo_system\<lparr>queue := demo_queue\<rparr>)))
   \<and> 3 \<notin> set (map msg_id (queue (processMessages demo_worker_env (demo_system\<lparr>queue := demo_queue\<rparr>))))
   \<and> sp_ReferenceHash demo_store_request \<in> set (map p_reference_hash
        (pii_tokens (processMessages demo_worker_env (demo_system\<lparr>queue := demo_queue\<rparr>))))"
proof -
  let ?s = "demo_system\<lparr>queue := demo_queue\<rparr>"
  let ?rows = "map (\<lambda>m. m\<lparr>vt := 1700000301 * Second\<rparr>) demo_queue"
  have r: "\<not> pgmq_read_fails demo_worker_env" by (simp add: demo_worker_env_def)
  have d: "distinct (map msg_id (queue ?s))" by (simp add: demo_queue_def)
  have p: "pgmq_read (read_time demo_worker_env) 300 10 (queue ?s) = (?rows, ?rows)"
    using demo_read by (simp add: demo_worker_env_def)
  have sc: "\<not> scan_fails (msg_env demo_worker_env i)" for i
    by (simp add: demo_worker_env_def demo_env_def)
  let ?m1 = "\<lparr>msg_id = 1, vt = 1700000301 * Second, message = Undecodable ''[1, 2, 3]''\<rparr>"
  let ?m2 = "\<lparr>msg_id = 2, vt = 1700000301 * Second,
       message = Encoded (demo_store_request\<lparr>sp_ReferenceHash := ''aaaa''\<rparr>)\<rparr>"
  let ?m3 = "\<lparr>msg_id = 3, vt = 1700000301 * Second, message = Encoded demo_store_request\<rparr>"
  have m1: "?m1 \<in> set ?rows" and m2: "?m2 \<in> set ?rows" and m3: "?m3 \<in> set ?rows"
    by (simp_all add: demo_queue_def)
  have a: "1 \<notin> set (map msg_id (queue (processMessages demo_worker_env ?s)))"
    using worker_delete_policy [OF r d p m1 sc]
    by (simp add: demo_worker_env_def demo_env_def)
  have b: "?m2 \<in> set (queue (processMessages demo_worker_env ?s))"
    using worker_delete_policy [OF r d p m2 sc]
    by (simp add: demo_worker_env_def demo_env_def upsert_rejected_def)
  have c3: "3 \<notin> set (map msg_id (queue (processMessages demo_worker_env ?s)))"
    by (simp add: demo_worker_run)
  have c: "sp_ReferenceHash demo_store_request \<in> set (map p_reference_hash
        (pii_tokens (processMessages demo_worker_env ?s)))"
    using worker_delete_policy [OF r d p m3 sc] c3 by simp
  from a b c3 c show ?thesis by blast
qed

section \<open>Tokenisation when the queue fails\<close>

lemma hextable_nth: "i < 16 \<Longrightarrow> hextable ! i \<in> set hextable"
proof -
  assume "i < 16"
  moreover have "length hextable = 16" by (simp add: hextable_def)
  ultimately show ?thesis by (simp only: nth_mem)
qed

lemma EncodeToString_length: "length (EncodeToString bs) = 2 * length bs"
  by (induction bs) simp_all

lemma EncodeToString_hex: "set (EncodeToString bs) \<subseteq> set hextable"
proof (induction bs)
  case Nil
  then show ?case by simp
next
  case (Cons b bs)
  have "(of_char b :: nat) < 256" by (rule nat_of_char_less_256)
  then have "(of_char b :: nat) div 16 < 16" by presburger
  moreover have "(of_char b :: nat) mod 16 < 16" by simp
  ultimately show ?case using Cons hextable_nth by simp
qed

text \<open>
  The TEK that is resolved, and the parts of the state it is resolved from, depend on
  the queue neither through the state nor through the environment.
\<close>

lemma createTEK_view:
  assumes "kek s' = kek s"
    and "organization_teks s' = organization_teks s"
    and "rand_tek e' = rand_tek e" and "rand_tek_iv e' = rand_tek_iv e"
    and "rpc_storeTEK_fails e' = rpc_storeTEK_fails e"
    and "db_saveTEK_fails e' = db_saveTEK_fails e"
    and "now_tek e' = now_tek e" and "now_db e' = now_db e"
  shows "snd (createTEK c e' s' org key) = snd (createTEK c e s org key)
    \<and> kek (fst (createTEK c e' s' org key)) = kek (fst (createTEK c e s org key))
    \<and> organization_teks (fst (createTEK c e' s' org key)) =
        organization_teks (fst (createTEK c e s org key))"
  using assms
  by (auto simp: createTEK_def wrapTEKWithKEK_def StoreTEK_def saveTEKToDatabase_def Let_def
      split: option.splits sum.splits prod.splits)

lemma getOrCreateTEK_view:
  assumes "kek s' = kek s"
    and "organization_teks s' = organization_teks s"
    and "tekCache s' = tekCache s"
    and "persistenceClient s' = persistenceClient s"
    and "rand_tek e' = rand_tek e" and "rand_tek_iv e' = rand_tek_iv e"
    and "rpc_storeTEK_fails e' = rpc_storeTEK_fails e"
    and "db_saveTEK_fails e' = db_saveTEK_fails e"
    and "now_tek e' = now_tek e" and "now_db e' = now_db e"
    and "rpc_retrieveTEK_fails e' = rpc_retrieveTEK_fails e"
    and "db_loadTEK_fails e' = db_loadTEK_fails e"
  shows "snd (getOrCreateTEK c e' s' org key) = snd (getOrCreateTEK c e s org key)
    \<and> kek (fst (getOrCreateTEK c e' s' org key)) = kek (fst (getOrCreateTEK c e s org key))"
proof -
  let ?s1 = "s\<lparr>tekCache := (tekCache s)(org := None)\<rparr>"
  let ?s1' = "s'\<lparr>tekCache := (tekCache s)(org := None)\<rparr>"
  have c1: "snd (createTEK c e' s' org key) = snd (createTEK c e s org key)
    \<and> kek (fst (createTEK c e' s' org key)) = kek (fst (createTEK c e s org key))"
    using createTEK_view [of s' s e' e c org key] assms by simp
  have c2: "snd (createTEK c e' ?s1' org key) = snd (createTEK c e ?s1 org key)
    \<and> kek (fst (createTEK c e' ?s1' org key)) = kek (fst (createTEK c e ?s1 org key))"
    using createTEK_view [of ?s1' ?s1 e' e c org key] assms by simp
  have l: "loadTEKFromDatabase c e' s' org key = loadTEKFromDatabase c e s org key"
    "loadTEKFromDatabase c e' ?s1' org key = loadTEKFromDatabase c e ?s1 org key"
    using assms by (simp_all add: loadTEKFromDatabase_def)
  show ?thesis
    using assms c1 c2 l
    by (auto simp: getOrCreateTEK_def RetrieveTEK_def Let_def
        split: option.splits sum.splits prod.splits)
qed

lemma encrypt_view:
  assumes "kek s' = kek s"
    and "organization_teks s' = organization_teks s"
    and "tekCache s' = tekCache s"
    and "persistenceClient s' = persistenceClient s"
    and "rand_tek e' = rand_tek e" and "rand_tek_iv e' = rand_tek_iv e"
    and "rpc_storeTEK_fails e' = rpc_storeTEK_fails e"
    and "db_saveTEK_fails e' = db_saveTEK_fails e"
    and "now_tek e' = now_tek e" and "now_db e' = now_db e"
    and "rpc_retrieveTEK_fails e' = rpc_retrieveTEK_fails e"
    and "db_loadTEK_fails e' = db_loadTEK_fails e"
    and "rand_iv e' = rand_iv e"
  shows "snd (encryptPIIWithEnvelope c e' s' d org key) =
         snd (encryptPIIWithEnvelope c e s d org key)"
proof -
  obtain t r where g: "getOrCreateTEK c e s org key = (t, r)" by fastforce
  obtain t' r' where g': "getOrCreateTEK c e' s' org key = (t', r')" by fastforce
  from getOrCreateTEK_view [OF assms(1-12), of c org key] g g'
  have "r' = r" and "kek t' = kek t" by simp_all
  then show ?thesis
    using g g' assms(13)
    by (auto simp: encryptPIIWithEnvelope_def unwrapTEKWithKEK_def Let_def
        split: option.splits sum.splits prod.splits)
qed

text \<open>
  Claim C9. The response of \<^verbatim>\<open>Tokenize\<close> is the same whether or not the queue is
  available and whether or not the publish fails: a failure of the queue is never
  reported to the caller. A request that is answered with status \<^verbatim>\<open>success\<close> is so
  answered when the queue fails, with an empty error message and a reference made of
  \<^verbatim>\<open>tok_\<close> and 32 lowercase hexadecimal digits.
\<close>

theorem Tokenize_ignores_queue_failure:
  "snd (Tokenize c (e\<lparr>pgmq_send_fails := b\<rparr>) (s\<lparr>pgmqDB := b'\<rparr>) req) = snd (Tokenize c e s req)
   \<and> (tr_Status (snd (Tokenize c e s req)) = ''success'' \<longrightarrow>
        tr_Status (snd (Tokenize c (e\<lparr>pgmq_send_fails := b\<rparr>) (s\<lparr>pgmqDB := b'\<rparr>) req)) = ''success''
        \<and> tr_ErrorMessage (snd (Tokenize c (e\<lparr>pgmq_send_fails := b\<rparr>) (s\<lparr>pgmqDB := b'\<rparr>) req)) = []
        \<and> (\<exists>h. tr_ReferenceHash (snd (Tokenize c (e\<lparr>pgmq_send_fails := b\<rparr>) (s\<lparr>pgmqDB := b'\<rparr>) req))
                 = ''tok_'' @ h \<and> length h = 32 \<and> set h \<subseteq> set hextable))"
proof -
  have ind: "snd (Tokenize c (e\<lparr>pgmq_send_fails := b\<rparr>) (s\<lparr>pgmqDB := b'\<rparr>) req) =
      snd (Tokenize c e s req)"
  proof -
    have "snd (encryptPIIWithEnvelope c (e\<lparr>pgmq_send_fails := b\<rparr>) (s\<lparr>pgmqDB := b'\<rparr>)
              (tq_Data req) (tq_OrganizationId req) (tq_OrganizationKey req)) =
          snd (encryptPIIWithEnvelope c e s
              (tq_Data req) (tq_OrganizationId req) (tq_OrganizationKey req))"
      by (rule encrypt_view) simp_all
    then show ?thesis
      by (auto simp: Tokenize_def generateReferenceHash_def Let_def
          split: option.splits sum.splits prod.splits)
  qed
  have wf: "tr_ErrorMessage (snd (Tokenize c e s req)) = [] \<and>
      (\<exists>h. tr_ReferenceHash (snd (Tokenize c e s req)) = ''tok_'' @ h \<and> length h = 32 \<and>
           set h \<subseteq> set hextable)"
    if ok: "tr_Status (snd (Tokenize c e s req)) = ''success''"
  proof -
    obtain s' resp where t: "Tokenize c e s req = (s', resp)" by fastforce
    with ok have "tr_Status resp = ''success''" by simp
    from Tokenize_success [OF t this] obtain bs where
      "length bs = 16"
      "resp = \<lparr>tr_ReferenceHash = ''tok_'' @ EncodeToString bs,
               tr_TokenType = ''PII_TOKEN_V2_ENVELOPE'',
               tr_ExpiresAt = Some (now_expiry e + getRetentionDuration (tq_RetentionPolicy req)),
               tr_Status = ''success'', tr_ErrorMessage = []\<rparr>"
      by auto
    then show ?thesis
      using t EncodeToString_length [of bs] EncodeToString_hex [of bs] by auto
  qed
  show ?thesis using ind wf by simp
qed

theorem Tokenize_ignores_queue_failure_witness:
  "tr_Status (snd (Tokenize demo_crypto (demo_env\<lparr>pgmq_send_fails := True\<rparr>)
       (demo_system\<lparr>pgmqDB := False\<rparr>) demo_request)) = ''success''
   \<and> tr_ReferenceHash (snd (Tokenize demo_crypto (demo_env\<lparr>pgmq_send_fails := True\<rparr>)
       (demo_system\<lparr>pgmqDB := False\<rparr>) demo_request)) = ''tok_30313233343536373839616263646566''
   \<and> tr_ErrorMessage (snd (Tokenize demo_crypto (demo_env\<lparr>pgmq_send_fails := True\<rparr>)
       (demo_system\<lparr>pgmqDB := False\<rparr>) demo_request)) = []"
proof -
  have r: "tr_ReferenceHash (snd (Tokenize demo_crypto demo_env demo_system demo_request)) =
      ''tok_30313233343536373839616263646566''"
    by code_simp
  note T = Tokenize_ignores_queue_failure [where c = demo_crypto and e = demo_env and b = True
      and s = demo_system and b' = False and req = demo_request]
  have e: "snd (Tokenize demo_crypto (demo_env\<lparr>pgmq_send_fails := True\<rparr>)
       (demo_system\<lparr>pgmqDB := False\<rparr>) demo_request) =
     snd (Tokenize demo_crypto demo_env demo_system demo_request)"
    using T by (rule conjunct1)
  have st: "tr_Status (snd (Tokenize demo_crypto (demo_env\<lparr>pgmq_send_fails := True\<rparr>)
       (demo_system\<lparr>pgmqDB := False\<rparr>) demo_request)) = ''success''
     \<and> tr_ErrorMessage (snd (Tokenize demo_crypto (demo_env\<lparr>pgmq_send_fails := True\<rparr>)
       (demo_system\<lparr>pgmqDB := False\<rparr>) demo_request)) = []"
    using T demo_Tokenize_success by blast
  have rf: "tr_ReferenceHash (snd (Tokenize demo_crypto (demo_env\<lparr>pgmq_send_fails := True\<rparr>)
       (demo_system\<lparr>pgmqDB := False\<rparr>) demo_request)) = ''tok_30313233343536373839616263646566''"
    unfolding e by (rule r)
  from st rf show ?thesis by blast
qed

section \<open>A presented key that does not match the stored hash\<close>

lemma find_active_row:
  assumes "distinct (map t_organization_id tbl)"
    and "find (\<lambda>r. t_organization_id r = org \<and> t_is_active r) tbl = Some r"
  shows "find (\<lambda>r. t_organization_id r = org) tbl = Some r"
  using assms
proof (induction tbl)
  case Nil
  then show ?case by simp
next
  case (Cons a tbl)
  show ?case
  proof (cases "t_organization_id a = org")
    case True
    show ?thesis
    proof (cases "t_is_active a")
      case True
      with \<open>t_organization_id a = org\<close> Cons.prems show ?thesis by simp
    next
      case False
      with \<open>t_organization_id a = org\<close> Cons.prems
      have "find (\<lambda>r. t_organization_id r = org \<and> t_is_active r) tbl = Some r" by simp
      then have "r \<in> set tbl \<and> t_organization_id r = org"
        by (auto simp: find_Some_iff)
      then have "t_organization_id r \<in> t_organization_id ` set tbl" by blast
      with \<open>t_organization_id a = org\<close> \<open>r \<in> set tbl \<and> t_organization_id r = org\<close>
        Cons.prems(1) show ?thesis by simp
    qed
  next
    case False
    with Cons show ?thesis by simp
  qed
qed

text \<open>
  An instance: organization \<^verbatim>\<open>acme\<close> has a record created with the key \<^verbatim>\<open>s3cret\<close>, and
  \<^verbatim>\<open>getOrCreateTEK\<close> is called with the key \<^verbatim>\<open>wrong\<close>. The persistence service reports the
  failed verification; the record of the organization then carries the new wrapped
  key, the hash of \<^verbatim>\<open>wrong\<close> and version 2.
\<close>

lemma demo_mismatch_run:
  "organization_teks demo_system_tokenized =
     [\<lparr>t_organization_id = ''acme'',
       t_encrypted_tek = ''wrap-nonce-1tek-tek-tek-tek-tek-tek-tek-tek-wrap-nonce-1kek-'',
       t_org_key_hash = EncodeToString (sha256_Sum256 demo_crypto ''s3cret''),
       t_created_at = 1700000000 * Second, t_rotated_at = None, t_version = 1,
       t_is_active = True\<rparr>]
   \<and> EncodeToString (sha256_Sum256 demo_crypto ''wrong'') \<noteq>
       EncodeToString (sha256_Sum256 demo_crypto ''s3cret'')
   \<and> tekCache demo_system_tokenized ''acme'' =
       Some \<lparr>tek_OrganizationID = ''acme'',
             tek_EncryptedTEK = ''wrap-nonce-1tek-tek-tek-tek-tek-tek-tek-tek-wrap-nonce-1kek-'',
             tek_OrgKeyHash = EncodeToString (sha256_Sum256 demo_crypto ''s3cret''),
             tek_CreatedAt = 1700000000 * Second, tek_RotatedAt = None, tek_Version = 1\<rparr>
   \<and> RetrieveTEK demo_crypto demo_env_later demo_system_tokenized ''acme'' ''wrong'' =
       Inl ErrKeyVerification
   \<and> organization_teks
        (fst (getOrCreateTEK demo_crypto demo_env_later demo_system_tokenized ''acme'' ''wrong'')) =
       [\<lparr>t_organization_id = ''acme'',
         t_encrypted_tek = ''wrap-nonce-2TEK+TEK+TEK+TEK+TEK+TEK+TEK+TEK+wrap-nonce-2kek-'',
         t_org_key_hash = EncodeToString (sha256_Sum256 demo_crypto ''wrong''),
         t_created_at = 1700000000 * Second, t_rotated_at = Some (1700000100 * Second),
         t_version = 2, t_is_active = True\<rparr>]"
  by code_simp

text \<open>
  Claim C1 requires that resolving the TEK of an organization with an active record
  fails when the presented key does not match the stored hash, caches nothing and
  leaves the record as it is. The code does otherwise. Whenever the organization has
  an active record whose hash the presented key does not match, nothing usable is
  cached, and fresh randomness and the store are available, the persistence service
  returns no record, and \<^verbatim>\<open>getOrCreateTEK\<close> succeeds all the same: it creates a new TEK,
  returns and caches the new record (hash of the presented key, version 1), and
  replaces the record of the organization in \<^verbatim>\<open>organization_teks\<close> with it.
\<close>

theorem getOrCreateTEK_key_mismatch_overwrites:
  assumes cached: "\<forall>t. tekCache s org = Some t \<longrightarrow> \<not> verifyOrganizationKey c key (tek_OrgKeyHash t)"
    and client: "persistenceClient s"
    and unique: "distinct (map t_organization_id (organization_teks s))"
    and row: "find (\<lambda>r. t_organization_id r = org \<and> t_is_active r) (organization_teks s) = Some r"
    and mismatch: "\<not> verifyOrganizationKey c key (t_org_key_hash r)"
    and random: "rand_tek e = Some tek" "length tek = 32" "rand_tek_iv e = Some nonce" "length nonce = 12"
    and kek: "aes_NewCipher (kek s)"
    and io: "\<not> rpc_storeTEK_fails e" "\<not> db_saveTEK_fails e"
    and new: "tekRecord = \<lparr>tek_OrganizationID = org,
                           tek_EncryptedTEK = nonce @ gcm_Seal c (kek s) nonce tek [],
                           tek_OrgKeyHash = EncodeToString (sha256_Sum256 c key),
                           tek_CreatedAt = now_tek e,
                           tek_RotatedAt = None,
                           tek_Version = 1\<rparr>"
  shows "(\<forall>tekRecord'. RetrieveTEK c e s org key \<noteq> Inr tekRecord')
    \<and> snd (getOrCreateTEK c e s org key) = Inr tekRecord
    \<and> tekCache (fst (getOrCreateTEK c e s org key)) org = Some tekRecord
    \<and> filter (\<lambda>r. t_organization_id r = org)
         (organization_teks (fst (getOrCreateTEK c e s org key))) =
       [tek_replaced tekRecord (now_db e) r]"
proof -
  let ?s1 = "s\<lparr>tekCache := (tekCache s)(org := None)\<rparr>"
  have ret: "\<exists>er. RetrieveTEK c e s' org key = Inl er"
    if "organization_teks s' = organization_teks s" for s'
    using that row mismatch by (simp add: RetrieveTEK_def loadTEKFromDatabase_def)
  have create: "createTEK c e s' org key =
      (s'\<lparr>organization_teks := upsert_tek tekRecord (now_db e) (organization_teks s'),
          tekCache := (tekCache s')(org \<mapsto> tekRecord)\<rparr>, Inr tekRecord)"
    if "kek s' = kek s" for s'
    using that random kek io
    by (simp add: createTEK_def rand_Read_def wrapTEKWithKEK_def StoreTEK_def
        saveTEKToDatabase_def new Let_def)
  have up: "filter (\<lambda>r. t_organization_id r = org)
      (upsert_tek tekRecord (now_db e) (organization_teks s)) = [tek_replaced tekRecord (now_db e) r]"
    using upsert_tek_row [OF unique, of tekRecord "now_db e"] find_active_row [OF unique row]
    by (simp add: new)
  have a: "\<forall>tekRecord'. RetrieveTEK c e s org key \<noteq> Inr tekRecord'"
    using ret [of s] by auto
  show ?thesis
  proof (cases "tekCache s org")
    case None
    obtain er where "RetrieveTEK c e s org key = Inl er" using ret [of s] by auto
    then have "getOrCreateTEK c e s org key = createTEK c e s org key"
      using None client by (auto simp: getOrCreateTEK_def)
    then show ?thesis using a create [of s] up by simp
  next
    case (Some t)
    with cached have nv: "\<not> verifyOrganizationKey c key (tek_OrgKeyHash t)" by simp
    obtain er where "RetrieveTEK c e ?s1 org key = Inl er" using ret [of ?s1] by auto
    then have "getOrCreateTEK c e s org key = createTEK c e ?s1 org key"
      using Some nv client by (auto simp: getOrCreateTEK_def)
    then show ?thesis using a create [of ?s1] up by simp
  qed
qed

theorem getOrCreateTEK_key_mismatch_overwrites_witness:
  "snd (getOrCreateTEK demo_crypto demo_env_later demo_system_tokenized ''acme'' ''wrong'') =
     Inr \<lparr>tek_OrganizationID = ''acme'',
          tek_EncryptedTEK = ''wrap-nonce-2TEK+TEK+TEK+TEK+TEK+TEK+TEK+TEK+wrap-nonce-2kek-'',
          tek_OrgKeyHash = EncodeToString (sha256_Sum256 demo_crypto ''wrong''),
          tek_CreatedAt = 1700000100 * Second, tek_RotatedAt = None, tek_Version = 1\<rparr>
   \<and> tekCache
        (fst (getOrCreateTEK demo_crypto demo_env_later demo_system_tokenized ''acme'' ''wrong''))
        ''acme'' =
     Some \<lparr>tek_OrganizationID = ''acme'',
           tek_EncryptedTEK = ''wrap-nonce-2TEK+TEK+TEK+TEK+TEK+TEK+TEK+TEK+wrap-nonce-2kek-'',
           tek_OrgKeyHash = EncodeToString (sha256_Sum256 demo_crypto ''wrong''),
           tek_CreatedAt = 1700000100 * Second, tek_RotatedAt = None, tek_Version = 1\<rparr>
   \<and> map t_org_key_hash (filter (\<lambda>r. t_organization_id r = ''acme'')
        (organization_teks
          (fst (getOrCreateTEK demo_crypto demo_env_later demo_system_tokenized ''acme'' ''wrong'')))) =
     [EncodeToString (sha256_Sum256 demo_crypto ''wrong'')]"
proof -
  let ?old = "\<lparr>tek_OrganizationID = ''acme'',
             tek_EncryptedTEK = ''wrap-nonce-1tek-tek-tek-tek-tek-tek-tek-tek-wrap-nonce-1kek-'',
             tek_OrgKeyHash = EncodeToString (sha256_Sum256 demo_crypto ''s3cret''),
             tek_CreatedAt = 1700000000 * Second, tek_RotatedAt = None, tek_Version = 1\<rparr>"
  let ?row = "\<lparr>t_organization_id = ''acme'',
       t_encrypted_tek = ''wrap-nonce-1tek-tek-tek-tek-tek-tek-tek-tek-wrap-nonce-1kek-'',
       t_org_key_hash = EncodeToString (sha256_Sum256 demo_crypto ''s3cret''),
       t_created_at = 1700000000 * Second, t_rotated_at = None, t_version = 1,
       t_is_active = True\<rparr>"
  let ?new = "\<lparr>tek_OrganizationID = ''acme'',
          tek_EncryptedTEK = ''wrap-nonce-2TEK+TEK+TEK+TEK+TEK+TEK+TEK+TEK+wrap-nonce-2kek-'',
          tek_OrgKeyHash = EncodeToString (sha256_Sum256 demo_crypto ''wrong''),
          tek_CreatedAt = 1700000100 * Second, tek_RotatedAt = None, tek_Version = 1\<rparr>"
  have nv: "\<not> verifyOrganizationKey demo_crypto ''wrong''
      (EncodeToString (sha256_Sum256 demo_crypto ''s3cret''))"
    using demo_mismatch_run by (simp add: verifyOrganizationKey_def)
  have cached: "\<forall>t. tekCache demo_system_tokenized ''acme'' = Some t \<longrightarrow>
      \<not> verifyOrganizationKey demo_crypto ''wrong'' (tek_OrgKeyHash t)"
    using demo_mismatch_run nv by simp
  have client: "persistenceClient demo_system_tokenized" by code_simp
  have unique: "distinct (map t_organization_id (organization_teks demo_system_tokenized))"
    using demo_mismatch_run by simp
  have row: "find (\<lambda>r. t_organization_id r = ''acme'' \<and> t_is_active r)
      (organization_teks demo_system_tokenized) = Some ?row"
    using demo_mismatch_run by simp
  have mismatch: "\<not> verifyOrganizationKey demo_crypto ''wrong'' (t_org_key_hash ?row)"
    using nv by simp
  have random: "rand_tek demo_env_later = Some ''TEK+TEK+TEK+TEK+TEK+TEK+TEK+TEK+''"
    "length ''TEK+TEK+TEK+TEK+TEK+TEK+TEK+TEK+'' = 32"
    "rand_tek_iv demo_env_later = Some ''wrap-nonce-2''" "length ''wrap-nonce-2'' = 12"
    by (simp_all add: demo_env_later_def demo_env_def)
  have kek: "aes_NewCipher (kek demo_system_tokenized)" by code_simp
  have io: "\<not> rpc_storeTEK_fails demo_env_later" "\<not> db_saveTEK_fails demo_env_later"
    by (simp_all add: demo_env_later_def demo_env_def)
  have new: "?new = \<lparr>tek_OrganizationID = ''acme'',
       tek_EncryptedTEK = ''wrap-nonce-2'' @
         gcm_Seal demo_crypto (kek demo_system_tokenized) ''wrap-nonce-2''
           ''TEK+TEK+TEK+TEK+TEK+TEK+TEK+TEK+'' [],
       tek_OrgKeyHash = EncodeToString (sha256_Sum256 demo_crypto ''wrong''),
       tek_CreatedAt = now_tek demo_env_later,
       tek_RotatedAt = None,
       tek_Version = 1\<rparr>"
  proof -
    have "''wrap-nonce-2'' @
         gcm_Seal demo_crypto (kek demo_system_tokenized) ''wrap-nonce-2''
           ''TEK+TEK+TEK+TEK+TEK+TEK+TEK+TEK+'' [] =
       ''wrap-nonce-2TEK+TEK+TEK+TEK+TEK+TEK+TEK+TEK+wrap-nonce-2kek-''"
      by code_simp
    moreover have "now_tek demo_env_later = 1700000100 * Second"
      by (simp add: demo_env_later_def)
    ultimately show ?thesis by (simp only:)
  qed
  note T = getOrCreateTEK_key_mismatch_overwrites [OF cached client unique row mismatch
      random kek io new]
  have f: "map t_org_key_hash (filter (\<lambda>r. t_organization_id r = ''acme'')
        (organization_teks
          (fst (getOrCreateTEK demo_crypto demo_env_later demo_system_tokenized ''acme'' ''wrong'')))) =
     [EncodeToString (sha256_Sum256 demo_crypto ''wrong'')]"
    using T by (simp add: tek_replaced_def)
  show ?thesis
    by (intro conjI) (rule T [THEN conjunct2, THEN conjunct1],
        rule T [THEN conjunct2, THEN conjunct2, THEN conjunct1], rule f)
qed


section \<open>Associated data\<close>

lemma rand_Read_length: "rand_Read n src = Some bs \<Longrightarrow> length bs = n"
  by (auto simp: rand_Read_def split: option.splits if_splits)

text \<open>
  Claim C2, as the code has it. Sealing a PII value and wrapping a TEK pass no
  associated data to AES-GCM, and opening and unwrapping pass none either: the
  ciphertext of \<^verbatim>\<open>encryptPIIWithEnvelope\<close> is the seal of the data under the derived key
  and a 12-byte nonce with empty associated data, \<^verbatim>\<open>decryptPIIWithEnvelope\<close> opens with
  empty associated data, a wrapped TEK is a 12-byte nonce followed by the seal of the
  TEK under the KEK with empty associated data, and unwrapping opens it so; hence a
  wrapped TEK unwraps to the TEK.
\<close>

theorem envelope_seals_without_aad:
  "(encryptPIIWithEnvelope c e s d org key = (s', Inr (ct, iv)) \<longrightarrow>
      (\<exists>tekRecord tek.
         getOrCreateTEK c e s org key = (s', Inr tekRecord) \<and>
         unwrapTEKWithKEK c s' (tek_EncryptedTEK tekRecord) = Inr tek \<and>
         length iv = 12 \<and>
         ct = gcm_Seal c (deriveKeyWithHKDF c key tek) iv d []))
   \<and> (decryptPIIWithEnvelope c e s ct iv org key = (s', Inr pt) \<longrightarrow>
      (\<exists>tekRecord tek.
         getOrCreateTEK c e s org key = (s', Inr tekRecord) \<and>
         unwrapTEKWithKEK c s' (tek_EncryptedTEK tekRecord) = Inr tek \<and>
         length iv = 12 \<and>
         gcm_Open c (deriveKeyWithHKDF c key tek) iv ct [] = Some pt))
   \<and> (wrapTEKWithKEK c e s tek = Inr w \<longrightarrow>
      (\<exists>nonce. length nonce = 12 \<and> w = nonce @ gcm_Seal c (kek s) nonce tek []))
   \<and> (unwrapTEKWithKEK c s w = Inr tek \<longrightarrow>
      gcm_Open c (kek s) (take 12 w) (drop 12 w) [] = Some tek)
   \<and> (aead_correct c \<and> wrapTEKWithKEK c e s tek = Inr w \<longrightarrow> unwrapTEKWithKEK c s w = Inr tek)"
proof -
  have a: "encryptPIIWithEnvelope c e s d org key = (s', Inr (ct, iv)) \<longrightarrow>
      (\<exists>tekRecord tek.
         getOrCreateTEK c e s org key = (s', Inr tekRecord) \<and>
         unwrapTEKWithKEK c s' (tek_EncryptedTEK tekRecord) = Inr tek \<and>
         length iv = 12 \<and>
         ct = gcm_Seal c (deriveKeyWithHKDF c key tek) iv d [])"
    by (auto simp: encryptPIIWithEnvelope_def Let_def
        split: prod.splits sum.splits option.splits if_splits)
  have b: "decryptPIIWithEnvelope c e s ct iv org key = (s', Inr pt) \<longrightarrow>
      (\<exists>tekRecord tek.
         getOrCreateTEK c e s org key = (s', Inr tekRecord) \<and>
         unwrapTEKWithKEK c s' (tek_EncryptedTEK tekRecord) = Inr tek \<and>
         length iv = 12 \<and>
         gcm_Open c (deriveKeyWithHKDF c key tek) iv ct [] = Some pt)"
    by (auto simp: decryptPIIWithEnvelope_def Let_def
        split: prod.splits sum.splits option.splits if_splits)
  have w: "wrapTEKWithKEK c e s tek = Inr w \<longrightarrow>
      (\<exists>nonce. length nonce = 12 \<and> w = nonce @ gcm_Seal c (kek s) nonce tek [])"
    by (auto simp: wrapTEKWithKEK_def dest: rand_Read_length split: option.splits if_splits)
  have u: "unwrapTEKWithKEK c s w = Inr tek \<longrightarrow>
      gcm_Open c (kek s) (take 12 w) (drop 12 w) [] = Some tek"
    by (auto simp: unwrapTEKWithKEK_def split: option.splits if_splits)
  have r: "aead_correct c \<and> wrapTEKWithKEK c e s tek = Inr w \<longrightarrow> unwrapTEKWithKEK c s w = Inr tek"
    by (auto simp: wrapTEKWithKEK_def unwrapTEKWithKEK_def aead_correct_def
        dest: rand_Read_length split: option.splits if_splits)
  from a b w u r show ?thesis by blast
qed


lemma length_pad_to: "length (pad_to n x) = n"
  by (simp add: pad_to_def)

lemma length_demo_tag: "length (demo_tag k n a) = 16"
  by (simp add: demo_tag_def length_pad_to)

lemma demo_aead: "aead_correct demo_crypto"
  by (simp add: aead_correct_def demo_crypto_def length_demo_tag)

lemma demo_encrypt:
  "snd (encryptPIIWithEnvelope demo_crypto demo_env demo_system ''user@example.com'' ''acme''
          ''s3cret'') =
     Inr (''user@example.comdata-nonce-1s3cr'', ''data-nonce-1'')"
  by code_simp

lemma demo_wrap:
  "wrapTEKWithKEK demo_crypto demo_env demo_system ''tek-tek-tek-tek-tek-tek-tek-tek-'' =
     Inr ''wrap-nonce-1tek-tek-tek-tek-tek-tek-tek-tek-wrap-nonce-1kek-''"
  by code_simp

theorem envelope_seals_without_aad_witness:
  "aead_correct demo_crypto
   \<and> wrapTEKWithKEK demo_crypto demo_env demo_system ''tek-tek-tek-tek-tek-tek-tek-tek-'' =
       Inr ''wrap-nonce-1tek-tek-tek-tek-tek-tek-tek-tek-wrap-nonce-1kek-''
   \<and> unwrapTEKWithKEK demo_crypto demo_system
         ''wrap-nonce-1tek-tek-tek-tek-tek-tek-tek-tek-wrap-nonce-1kek-'' =
       Inr ''tek-tek-tek-tek-tek-tek-tek-tek-''
   \<and> (\<exists>tekRecord tek.
         getOrCreateTEK demo_crypto demo_env demo_system ''acme'' ''s3cret'' =
           (fst (encryptPIIWithEnvelope demo_crypto demo_env demo_system ''user@example.com''
                   ''acme'' ''s3cret''), Inr tekRecord) \<and>
         unwrapTEKWithKEK demo_crypto
           (fst (encryptPIIWithEnvelope demo_crypto demo_env demo_system ''user@example.com''
                   ''acme'' ''s3cret''))
           (tek_EncryptedTEK tekRecord) = Inr tek \<and>
         length ''data-nonce-1'' = 12 \<and>
         ''user@example.comdata-nonce-1s3cr'' =
           gcm_Seal demo_crypto (deriveKeyWithHKDF demo_crypto ''s3cret'' tek) ''data-nonce-1''
             ''user@example.com'' [])"
proof -
  have e: "encryptPIIWithEnvelope demo_crypto demo_env demo_system ''user@example.com'' ''acme''
          ''s3cret'' =
     (fst (encryptPIIWithEnvelope demo_crypto demo_env demo_system ''user@example.com'' ''acme''
          ''s3cret''), Inr (''user@example.comdata-nonce-1s3cr'', ''data-nonce-1''))"
    using demo_encrypt by (simp add: prod_eq_iff)
  note T = envelope_seals_without_aad [where c = demo_crypto and e = demo_env
      and s = demo_system and d = "''user@example.com''" and org = "''acme''"
      and key = "''s3cret''"
      and s' = "fst (encryptPIIWithEnvelope demo_crypto demo_env demo_system
                  ''user@example.com'' ''acme'' ''s3cret'')"
      and ct = "''user@example.comdata-nonce-1s3cr''" and iv = "''data-nonce-1''"
      and tek = "''tek-tek-tek-tek-tek-tek-tek-tek-''"
      and w = "''wrap-nonce-1tek-tek-tek-tek-tek-tek-tek-tek-wrap-nonce-1kek-''"]
  note x = T [THEN conjunct1, THEN mp, OF e]
  note u = T [THEN conjunct2, THEN conjunct2, THEN conjunct2, THEN conjunct2, THEN mp,
      OF conjI [OF demo_aead demo_wrap]]
  show ?thesis
    by (intro conjI) (rule demo_aead, rule demo_wrap, rule u, rule x)
qed

text \<open>
  The claim as stated fails. With a cipher whose tag shows the associated data, the
  ciphertext that \<^verbatim>\<open>encryptPIIWithEnvelope\<close> returns is the seal with empty associated
  data and differs from the seal with \<^verbatim>\<open>organization_id || 0x00 || data_type\<close>; the
  wrapped TEK likewise is not sealed with the organization as associated data; and a
  record stored under the data type \<^verbatim>\<open>ssn\<close> instead of \<^verbatim>\<open>email\<close> still opens.
\<close>

theorem seal_aad_counterexample:
  "snd (encryptPIIWithEnvelope demo_crypto demo_env demo_system ''user@example.com'' ''acme''
          ''s3cret'') =
     Inr (gcm_Seal demo_crypto
            (deriveKeyWithHKDF demo_crypto ''s3cret'' ''tek-tek-tek-tek-tek-tek-tek-tek-'')
            ''data-nonce-1'' ''user@example.com'' [],
          ''data-nonce-1'')
   \<and> gcm_Seal demo_crypto
         (deriveKeyWithHKDF demo_crypto ''s3cret'' ''tek-tek-tek-tek-tek-tek-tek-tek-'')
         ''data-nonce-1'' ''user@example.com'' [] \<noteq>
       gcm_Seal demo_crypto
         (deriveKeyWithHKDF demo_crypto ''s3cret'' ''tek-tek-tek-tek-tek-tek-tek-tek-'')
         ''data-nonce-1'' ''user@example.com'' (''acme'' @ [CHR 0x00] @ ''email'')
   \<and> wrapTEKWithKEK demo_crypto demo_env demo_system ''tek-tek-tek-tek-tek-tek-tek-tek-'' =
       Inr (''wrap-nonce-1'' @
            gcm_Seal demo_crypto (kek demo_system) ''wrap-nonce-1''
              ''tek-tek-tek-tek-tek-tek-tek-tek-'' [])
   \<and> gcm_Seal demo_crypto (kek demo_system) ''wrap-nonce-1''
         ''tek-tek-tek-tek-tek-tek-tek-tek-'' [] \<noteq>
       gcm_Seal demo_crypto (kek demo_system) ''wrap-nonce-1''
         ''tek-tek-tek-tek-tek-tek-tek-tek-'' ''acme''
   \<and> snd (Detokenize demo_crypto demo_env_later
        (fst (storePIIToken demo_env demo_system_tokenized
                (demo_store_request\<lparr>sp_DataType := ''ssn''\<rparr>)))
        demo_detokenize_request) =
       \<lparr>dr_Data = ''user@example.com'', dr_DataType = ''ssn'',
        dr_OriginalTimestamp = Some (1700000000 * Second), dr_AccessLogged = True,
        dr_Status = ''success'', dr_ErrorMessage = []\<rparr>"
  by code_simp

section \<open>Error messages of detokenisation\<close>

lemma RetrievePIIToken_uncached:
  assumes "redis s (cacheKey h) = None"
  shows "RetrievePIIToken e s h org = (s, retrieveFromDatabase e s h org)"
  using assms
  by (auto simp: RetrievePIIToken_def retrieveFromCache_def redis_Get_def
      split: sum.splits prod.splits if_splits)

text \<open>
  Claim C4, as the code has it. For a request that passes validation: a record that
  is absent from cache and store, a record that the store holds but finds expired, and
  any failed retrieval give the message \<^verbatim>\<open>token not found\<close>; a record that is retrieved
  but past its expiry at the check of \<^verbatim>\<open>Detokenize\<close> gives \<^verbatim>\<open>token has expired\<close>; a
  failed decryption gives
  \<^verbatim>\<open>failed to decrypt PII data - invalid organization key\<close>.
\<close>

theorem Detokenize_error_messages:
  assumes "validateDetokenizeRequest req = None" and "dq_OrganizationKey req \<noteq> []"
  shows "(redis s (cacheKey (hashOnly (dq_ReferenceHash req))) = None \<and>
      find (\<lambda>r. p_reference_hash r = hashOnly (dq_ReferenceHash req) \<and>
                 p_organization_id r = dq_OrganizationId req) (pii_tokens s) = None \<longrightarrow>
      dr_ErrorMessage (snd (Detokenize c e s req)) = ''token not found'')
   \<and> (\<forall>r. redis s (cacheKey (hashOnly (dq_ReferenceHash req))) = None \<and>
      find (\<lambda>r. p_reference_hash r = hashOnly (dq_ReferenceHash req) \<and>
                 p_organization_id r = dq_OrganizationId req) (pii_tokens s) = Some r \<and>
      p_expires_at r < now_db e \<longrightarrow>
      dr_ErrorMessage (snd (Detokenize c e s req)) = ''token not found'')
   \<and> (\<forall>er. snd (pii_retrieveFromDatabase e s (hashOnly (dq_ReferenceHash req))
                (dq_OrganizationId req)) = Inl er \<longrightarrow>
      dr_ErrorMessage (snd (Detokenize c e s req)) = ''token not found'')
   \<and> (\<forall>tokenRecord. snd (pii_retrieveFromDatabase e s (hashOnly (dq_ReferenceHash req))
                (dq_OrganizationId req)) = Inr tokenRecord \<and>
      rec_ExpiresAt tokenRecord < now_check e \<longrightarrow>
      dr_ErrorMessage (snd (Detokenize c e s req)) = ''token has expired'')
   \<and> (\<forall>s1 tokenRecord er. pii_retrieveFromDatabase e s (hashOnly (dq_ReferenceHash req))
                (dq_OrganizationId req) = (s1, Inr tokenRecord) \<and>
      \<not> rec_ExpiresAt tokenRecord < now_check e \<and>
      snd (decryptPIIWithEnvelope c e s1 (rec_EncryptedData tokenRecord) (rec_IV tokenRecord)
             (rec_OrganizationID tokenRecord) (dq_OrganizationKey req)) = Inl er \<longrightarrow>
      dr_ErrorMessage (snd (Detokenize c e s req)) =
        ''failed to decrypt PII data - invalid organization key'')"
proof -
  let ?h = "hashOnly (dq_ReferenceHash req)"
  let ?org = "dq_OrganizationId req"
  have unc: "\<exists>er. snd (pii_retrieveFromDatabase e s ?h ?org) = Inl er"
    if "redis s (cacheKey ?h) = None" "\<exists>er. retrieveFromDatabase e s ?h ?org = Inl er"
    using that
    by (auto simp: pii_retrieveFromDatabase_def RetrievePIIToken_uncached)
  have nf: "dr_ErrorMessage (snd (Detokenize c e s req)) = ''token not found''"
    if "snd (pii_retrieveFromDatabase e s ?h ?org) = Inl er" for er
    using that assms
    by (auto simp: Detokenize_def detokenizeError_def split: prod.splits sum.splits)
  have a: "redis s (cacheKey ?h) = None \<and>
      find (\<lambda>r. p_reference_hash r = ?h \<and> p_organization_id r = ?org) (pii_tokens s) = None \<longrightarrow>
      dr_ErrorMessage (snd (Detokenize c e s req)) = ''token not found''"
  proof
    assume h: "redis s (cacheKey ?h) = None \<and>
      find (\<lambda>r. p_reference_hash r = ?h \<and> p_organization_id r = ?org) (pii_tokens s) = None"
    then have "\<exists>er. retrieveFromDatabase e s ?h ?org = Inl er"
      by (simp add: retrieveFromDatabase_def)
    with unc h obtain er where "snd (pii_retrieveFromDatabase e s ?h ?org) = Inl er"
      by presburger
    then show "dr_ErrorMessage (snd (Detokenize c e s req)) = ''token not found''"
      by (rule nf)
  qed
  have b: "\<forall>r. redis s (cacheKey ?h) = None \<and>
      find (\<lambda>r. p_reference_hash r = ?h \<and> p_organization_id r = ?org) (pii_tokens s) = Some r \<and>
      p_expires_at r < now_db e \<longrightarrow>
      dr_ErrorMessage (snd (Detokenize c e s req)) = ''token not found''"
  proof (intro allI impI)
    fix r
    assume h: "redis s (cacheKey ?h) = None \<and>
      find (\<lambda>r. p_reference_hash r = ?h \<and> p_organization_id r = ?org) (pii_tokens s) = Some r \<and>
      p_expires_at r < now_db e"
    then have "\<exists>er. retrieveFromDatabase e s ?h ?org = Inl er"
      by (simp add: retrieveFromDatabase_def)
    with unc h obtain er where "snd (pii_retrieveFromDatabase e s ?h ?org) = Inl er"
      by presburger
    then show "dr_ErrorMessage (snd (Detokenize c e s req)) = ''token not found''"
      by (rule nf)
  qed
  have c: "\<forall>er. snd (pii_retrieveFromDatabase e s ?h ?org) = Inl er \<longrightarrow>
      dr_ErrorMessage (snd (Detokenize c e s req)) = ''token not found''"
    using nf by simp
  have d: "\<forall>tokenRecord. snd (pii_retrieveFromDatabase e s ?h ?org) = Inr tokenRecord \<and>
      rec_ExpiresAt tokenRecord < now_check e \<longrightarrow>
      dr_ErrorMessage (snd (Detokenize c e s req)) = ''token has expired''"
    using assms
    by (auto simp: Detokenize_def detokenizeError_def split: prod.splits sum.splits)
  have f: "\<forall>s1 tokenRecord er. pii_retrieveFromDatabase e s ?h ?org = (s1, Inr tokenRecord) \<and>
      \<not> rec_ExpiresAt tokenRecord < now_check e \<and>
      snd (decryptPIIWithEnvelope c e s1 (rec_EncryptedData tokenRecord) (rec_IV tokenRecord)
             (rec_OrganizationID tokenRecord) (dq_OrganizationKey req)) = Inl er \<longrightarrow>
      dr_ErrorMessage (snd (Detokenize c e s req)) =
        ''failed to decrypt PII data - invalid organization key''"
    using assms
    by (auto simp: Detokenize_def detokenizeError_def split: prod.splits sum.splits)
  show ?thesis
    by (intro conjI) (rule a, rule b, rule c, rule d, rule f)
qed

theorem Detokenize_error_messages_witness:
  "dr_ErrorMessage (snd (Detokenize demo_crypto demo_env_later demo_system_stored
       (demo_detokenize_request\<lparr>dq_ReferenceHash := ''tok_ffffffffffffffffffffffffffffffff''\<rparr>))) =
     ''token not found''
   \<and> dr_ErrorMessage (snd (Detokenize demo_crypto
       (demo_env_later\<lparr>now_check := 1700086401 * Second\<rparr>) demo_system_stored
       demo_detokenize_request)) =
     ''token has expired''
   \<and> dr_ErrorMessage (snd (Detokenize demo_crypto demo_env_later demo_system_stored
       (demo_detokenize_request\<lparr>dq_OrganizationKey := ''wrong''\<rparr>))) =
     ''failed to decrypt PII data - invalid organization key''"
proof -
  let ?unknown = "demo_detokenize_request\<lparr>dq_ReferenceHash := ''tok_ffffffffffffffffffffffffffffffff''\<rparr>"
  let ?wrong = "demo_detokenize_request\<lparr>dq_OrganizationKey := ''wrong''\<rparr>"
  let ?late = "demo_env_later\<lparr>now_check := 1700086401 * Second\<rparr>"
  let ?R = "\<lparr>rec_ReferenceHash = ''30313233343536373839616263646566'',
             rec_EncryptedData = ''user@example.comdata-nonce-1s3cr'',
             rec_IV = ''data-nonce-1'', rec_DataType = ''email'', rec_ClientID = ''c1'',
             rec_OrganizationID = ''acme'', rec_CreatedAt = 1700000000 * Second,
             rec_ExpiresAt = 1700086400 * Second, rec_Metadata = []\<rparr>"
  have v1: "validateDetokenizeRequest ?unknown = None" "dq_OrganizationKey ?unknown \<noteq> []"
    and v2: "validateDetokenizeRequest demo_detokenize_request = None"
      "dq_OrganizationKey demo_detokenize_request \<noteq> []"
    and v3: "validateDetokenizeRequest ?wrong = None" "dq_OrganizationKey ?wrong \<noteq> []"
    by (simp_all add: validateDetokenizeRequest_def demo_detokenize_request_def)
  have absent: "redis demo_system_stored (cacheKey (hashOnly (dq_ReferenceHash ?unknown))) = None \<and>
      find (\<lambda>r. p_reference_hash r = hashOnly (dq_ReferenceHash ?unknown) \<and>
                 p_organization_id r = dq_OrganizationId ?unknown)
        (pii_tokens demo_system_stored) = None"
    by code_simp
  have expired: "snd (pii_retrieveFromDatabase ?late demo_system_stored
        (hashOnly (dq_ReferenceHash demo_detokenize_request))
        (dq_OrganizationId demo_detokenize_request)) = Inr ?R \<and>
      rec_ExpiresAt ?R < now_check ?late"
    by code_simp
  have found: "snd (pii_retrieveFromDatabase demo_env_later demo_system_stored
        (hashOnly (dq_ReferenceHash ?wrong)) (dq_OrganizationId ?wrong)) = Inr ?R"
    by code_simp
  have undecryptable: "\<not> rec_ExpiresAt ?R < now_check demo_env_later \<and>
      snd (decryptPIIWithEnvelope demo_crypto demo_env_later
             (fst (pii_retrieveFromDatabase demo_env_later demo_system_stored
                (hashOnly (dq_ReferenceHash ?wrong)) (dq_OrganizationId ?wrong)))
             (rec_EncryptedData ?R) (rec_IV ?R) (rec_OrganizationID ?R)
             (dq_OrganizationKey ?wrong)) = Inl ErrDecryptData"
    by code_simp
  have found': "pii_retrieveFromDatabase demo_env_later demo_system_stored
        (hashOnly (dq_ReferenceHash ?wrong)) (dq_OrganizationId ?wrong) =
      (fst (pii_retrieveFromDatabase demo_env_later demo_system_stored
        (hashOnly (dq_ReferenceHash ?wrong)) (dq_OrganizationId ?wrong)), Inr ?R)"
    using found by (simp add: prod_eq_iff)
  note a = Detokenize_error_messages [OF v1, where c = demo_crypto and e = demo_env_later
      and s = demo_system_stored, THEN conjunct1, THEN mp, OF absent]
  note d = Detokenize_error_messages [OF v2, where c = demo_crypto and e = ?late
      and s = demo_system_stored, THEN conjunct2, THEN conjunct2, THEN conjunct2,
      THEN conjunct1, THEN spec, THEN mp, OF expired]
  note f = Detokenize_error_messages [OF v3, where c = demo_crypto and e = demo_env_later
      and s = demo_system_stored, THEN conjunct2, THEN conjunct2, THEN conjunct2,
      THEN conjunct2, THEN spec, THEN spec, THEN spec, THEN mp,
      OF conjI [OF found' undecryptable]]
  show ?thesis
    by (intro conjI) (rule a, rule d, rule f)
qed

text \<open>
  The claim as stated (one message for the three cases) fails: an unknown reference,
  a wrong organization key and an expired record are answered with three different
  messages.
\<close>

theorem Detokenize_same_message_counterexample:
  "dr_ErrorMessage (snd (Detokenize demo_crypto demo_env_later demo_system_stored
       (demo_detokenize_request\<lparr>dq_ReferenceHash := ''tok_ffffffffffffffffffffffffffffffff''\<rparr>))) =
     ''token not found''
   \<and> dr_ErrorMessage (snd (Detokenize demo_crypto demo_env_later demo_system_stored
       (demo_detokenize_request\<lparr>dq_OrganizationKey := ''wrong''\<rparr>))) =
     ''failed to decrypt PII data - invalid organization key''
   \<and> dr_ErrorMessage (snd (Detokenize demo_crypto
       (demo_env_later\<lparr>now_check := 1700086401 * Second\<rparr>) demo_system_stored
       demo_detokenize_request)) =
     ''token has expired''
   \<and> ''token not found'' \<noteq> ''failed to decrypt PII data - invalid organization key''
   \<and> ''token not found'' \<noteq> ''token has expired''"
  by code_simp



section \<open>Tokenise, store, detokenise\<close>

text \<open>Unix seconds below \<open>2 ^ 53\<close> in magnitude are read back from the cache exactly.\<close>

lemma bit_length_bound: "n < 2 ^ k \<Longrightarrow> bit_length n \<le> k"
proof (induction k arbitrary: n)
  case 0
  then show ?case by (simp add: bit_length.simps)
next
  case (Suc k)
  show ?case
  proof (cases "n \<le> 0")
    case True
    then show ?thesis by (simp add: bit_length.simps)
  next
    case False
    from Suc.prems have "n div 2 < 2 ^ k" by simp
    from Suc.IH [OF this] False show ?thesis
      by (subst bit_length.simps) simp
  qed
qed

lemma json_float64_exact: "\<bar>n\<bar> < 2 ^ 53 \<Longrightarrow> json_float64 n = n"
proof -
  assume "\<bar>n\<bar> < 2 ^ 53"
  from bit_length_bound [OF this] have "bit_length \<bar>n\<bar> - 53 = 0" by simp
  then show ?thesis by (simp add: json_float64_def Let_def mult_sgn_abs)
qed






















text \<open>
  Why the state must still hold the TEK. With a cipher whose tag depends on the TEK, a
  stored reference detokenises; after one \<^verbatim>\<open>Detokenize\<close> call for the organization with
  another key, which replaces the TEK of the organization, it no longer decrypts.
\<close>

lemma replaced_tek_breaks_round_trip:
  "dr_Data (snd (Detokenize demo_crypto_keyed demo_env_later demo_system_stored_keyed
      demo_detokenize_request)) = ''user@example.com''
   \<and> snd (Detokenize demo_crypto_keyed demo_env_later
        (fst (Detokenize demo_crypto_keyed demo_env_later demo_system_stored_keyed
           (demo_detokenize_request\<lparr>dq_OrganizationKey := ''wrong''\<rparr>)))
        demo_detokenize_request) =
       detokenizeError ''failed to decrypt PII data - invalid organization key''"
  by code_simp


end
